theory Spec2Isabelle
  imports Complex_Main
begin

section \<open>Values: floats, arrays, exceptions\<close>

text \<open>
  The module \<^verbatim>\<open>bipy/core/distance.py\<close> keeps its distances in a numpy array of dtype
  float. Only three things are ever asked of an entry: whether it equals another entry
  (\<^verbatim>\<open>==\<close>, in \<^verbatim>\<open>is_valid_dm\<close> and \<^verbatim>\<open>np.array_equal\<close>), how numpy writes it as text, and
  which entry numpy reads from a text token. So a float is a finite value, named by the
  rational it denotes, or one of the three special values; the two text conversions are
  numpy's and are parameters of \<open>to_file\<close> and \<open>from_file\<close> below.
\<close>

datatype pyfloat = Finite rat | PosInf | NegInf | NaN

text \<open>\<^verbatim>\<open>x == y\<close> on floats: a NaN equals nothing, itself included.\<close>

definition feq :: "pyfloat \<Rightarrow> pyfloat \<Rightarrow> bool" where
  "feq x y = (x \<noteq> NaN \<and> y \<noteq> NaN \<and> x = y)"

definition isfinite :: "pyfloat \<Rightarrow> bool" where
  "isfinite x = (case x of Finite _ \<Rightarrow> True | _ \<Rightarrow> False)"

text \<open>
  A numpy array of floats: its \<^verbatim>\<open>shape\<close> and its entries in row-major (C) order.
  An array is well formed when it has as many entries as its shape says.
\<close>

record ndarray =
  shape :: "nat list"
  flat :: "pyfloat list"

definition wf_ndarray :: "ndarray \<Rightarrow> bool" where
  "wf_ndarray d = (length (flat d) = prod_list (shape d))"

text \<open>The exceptions of the module, and the three built-in ones its calls can raise.\<close>

datatype exn =
    DistanceMatrixError string
  | MissingSampleIDError string
  | DistanceMatrixFormatError string
  | SampleIDMismatchError
  | MissingHeaderError
  | MissingDataError nat nat  \<comment> \<open>\<^verbatim>\<open>MissingDataError(actual, expected)\<close>\<close>
  | ValueError  \<comment> \<open>\<^verbatim>\<open>str.split\<close> with an empty separator; numpy on a token that is no float\<close>
  | AttributeError
  | IndexError

section \<open>Text primitives\<close>

text \<open>\<^verbatim>\<open>str(n)\<close> and \<^verbatim>\<open>"%d" % n\<close> for a non-negative integer.\<close>

definition digit_char :: "nat \<Rightarrow> char" where
  "digit_char d = char_of (48 + d)"

fun str_nat :: "nat \<Rightarrow> string" where
  "str_nat n = (if n < 10 then [digit_char n] else str_nat (n div 10) @ [digit_char (n mod 10)])"

declare str_nat.simps [simp del]

text \<open>The characters \<^verbatim>\<open>str.strip()\<close> removes: space, tab, newline, VT, FF, CR.\<close>

definition isspace :: "char \<Rightarrow> bool" where
  "isspace c = (c = CHR '' '' \<or> c = CHR 0x09 \<or> c = CHR 0x0A \<or> c = CHR 0x0B
                \<or> c = CHR 0x0C \<or> c = CHR 0x0D)"

definition strip :: "string \<Rightarrow> string" where
  "strip s = rev (dropWhile isspace (rev (dropWhile isspace s)))"

definition startswith :: "string \<Rightarrow> string \<Rightarrow> bool" where
  "startswith s p = (take (length p) s = p)"

text \<open>
  \<^verbatim>\<open>s.split(sep)\<close> for a separator string: the leftmost occurrence of \<open>sep\<close> ends the
  current token and the scan resumes behind it. \<open>tok\<close> is the token read so far.
  An empty separator raises \<^verbatim>\<open>ValueError\<close>.
\<close>

function split_from :: "string \<Rightarrow> string \<Rightarrow> string \<Rightarrow> string list" where
  "split_from sep tok [] = [tok]"
| "split_from sep tok (c # cs) =
     (if sep \<noteq> [] \<and> take (length sep) (c # cs) = sep
      then tok # split_from sep [] (drop (length sep) (c # cs))
      else split_from sep (tok @ [c]) cs)"
  by pat_completeness auto
termination
  by (relation "measure (\<lambda>(sep, tok, s). length s)") auto

definition py_split :: "string \<Rightarrow> string \<Rightarrow> exn + string list" where
  "py_split s sep = (if sep = [] then Inl ValueError else Inr (split_from sep [] s))"

text \<open>\<^verbatim>\<open>sep.join(xs)\<close>.\<close>

fun join :: "string \<Rightarrow> string list \<Rightarrow> string" where
  "join sep [] = []"
| "join sep [x] = x"
| "join sep (x # y # ys) = x @ sep @ join sep (y # ys)"

text \<open>
  Iterating over a file object yields its lines, each with its terminating newline; a
  last line without one is yielded as it is. \<open>cur\<close> is the line read so far.
\<close>

fun lines_from :: "string \<Rightarrow> string \<Rightarrow> string list" where
  "lines_from cur [] = (if cur = [] then [] else [cur])"
| "lines_from cur (c # cs) =
     (if c = CHR 0x0A then (cur @ [c]) # lines_from [] cs else lines_from (cur @ [c]) cs)"

definition file_lines :: "string \<Rightarrow> string list" where
  "file_lines s = lines_from [] s"

section \<open>The matrix core\<close>

text \<open>
  \<^verbatim>\<open>scipy.spatial.distance.is_valid_dm(D)\<close> with its default tolerance 0, a library
  function the module imports. It answers False unless \<open>D\<close> is 2-dimensional,
  \<^verbatim>\<open>(D == D.T).all()\<close> holds and \<^verbatim>\<open>(D[range(s[0]), range(s[0])] == 0).all()\<close> holds;
  an exception raised on the way (the diagonal read running off the second axis)
  also answers False. The comparison of \<open>D\<close> with its transpose follows numpy's
  broadcasting: shapes \<open>(r, c)\<close> and \<open>(c, r)\<close> are compatible when \<open>r = c\<close>, or when one
  of the two is 1, the single row or column then being compared with itself crosswise.
\<close>

definition item2 :: "ndarray \<Rightarrow> nat \<Rightarrow> nat \<Rightarrow> pyfloat" where
  "item2 d i j = flat d ! (i * (shape d ! 1) + j)"

definition eq_transpose_all :: "ndarray \<Rightarrow> nat \<Rightarrow> nat \<Rightarrow> bool" where
  "eq_transpose_all d r c =
     (if r = c then
        list_all (\<lambda>i. list_all (\<lambda>j. feq (item2 d i j) (item2 d j i)) [0..<c]) [0..<r]
      else if r = 1 then
        list_all (\<lambda>i. list_all (\<lambda>j. feq (item2 d 0 j) (item2 d 0 i)) [0..<c]) [0..<c]
      else if c = 1 then
        list_all (\<lambda>i. list_all (\<lambda>j. feq (item2 d i 0) (item2 d j 0)) [0..<r]) [0..<r]
      else False)"

definition diagonal_zero :: "ndarray \<Rightarrow> nat \<Rightarrow> nat \<Rightarrow> bool" where
  "diagonal_zero d r c =
     (r \<le> c \<and> list_all (\<lambda>i. feq (item2 d i i) (Finite 0)) [0..<r])"

definition is_valid_dm :: "ndarray \<Rightarrow> bool" where
  "is_valid_dm d =
     (case shape d of
        [r, c] \<Rightarrow> eq_transpose_all d r c \<and> diagonal_zero d r c
      | _ \<Rightarrow> False)"

text \<open>\<^verbatim>\<open>np.array_equal(a, b)\<close>: equal shapes and all entries equal under \<^verbatim>\<open>==\<close>.\<close>

definition array_equal :: "ndarray \<Rightarrow> ndarray \<Rightarrow> bool" where
  "array_equal a b = (shape a = shape b \<and> list_all2 feq (flat a) (flat b))"

text \<open>
  The instance state of a \<^verbatim>\<open>DistanceMatrix\<close>: \<^verbatim>\<open>_data\<close>, \<^verbatim>\<open>_sample_ids\<close> (a tuple)
  and \<^verbatim>\<open>_sample_index\<close> (a dict from ID to position).
\<close>

record distance_matrix =
  data :: ndarray
  sample_ids :: "string list"
  sample_index :: "string \<rightharpoonup> nat"

text \<open>\<^verbatim>\<open>_index_list\<close>: \<^verbatim>\<open>{id_: idx for idx, id_ in enumerate(list_)}\<close>; a later
  occurrence of an ID overwrites an earlier one.\<close>

definition index_list :: "string list \<Rightarrow> (string \<rightharpoonup> nat)" where
  "index_list list = fold (\<lambda>(idx, id) m. m(id \<mapsto> idx)) (enumerate 0 list) Map.empty"

definition msg_size :: string where
  "msg_size = ''Data must be at least 1x1 in size.''"

definition msg_unique :: string where
  "msg_unique = ''Sample IDs must be unique.''"

definition msg_structure :: string where
  "msg_structure = ''Data must be an array that is 2-dimensional, square, symmetric, hollow, and contains only floating point values.''"

definition msg_count :: string where
  "msg_count = ''The number of sample IDs must match the number of rows/columns in the data.''"

text \<open>
  \<^verbatim>\<open>_validate(data, sample_ids)\<close>: the \<^verbatim>\<open>if\<close>/\<^verbatim>\<open>elif\<close> chain, first failure wins.
  \<^verbatim>\<open>data.shape[0]\<close> in the last test raises \<^verbatim>\<open>IndexError\<close> on an empty shape.
\<close>

definition validate :: "ndarray \<Rightarrow> string list \<Rightarrow> exn + unit" where
  "validate d ids =
     (let num_sids = length ids in
      if 0 \<in> set (shape d) then Inl (DistanceMatrixError msg_size)
      else if num_sids \<noteq> card (set ids) then Inl (DistanceMatrixError msg_unique)
      else if \<not> is_valid_dm d then Inl (DistanceMatrixError msg_structure)
      else (case shape d of
              [] \<Rightarrow> Inl IndexError
            | n # _ \<Rightarrow> if num_sids \<noteq> n then Inl (DistanceMatrixError msg_count)
                       else Inr ()))"

text \<open>
  \<^verbatim>\<open>DistanceMatrix.__init__(data, sample_ids)\<close>, on the array that
  \<^verbatim>\<open>np.asarray(data, dtype='float')\<close> returned and the tuple of the IDs. A failure
  returns the exception and no instance.
\<close>

definition init :: "ndarray \<Rightarrow> string list \<Rightarrow> exn + distance_matrix" where
  "init d ids =
     (case validate d ids of
        Inl e \<Rightarrow> Inl e
      | Inr _ \<Rightarrow> Inr \<lparr>data = d, sample_ids = ids, sample_index = index_list ids\<rparr>)"

section \<open>The text codec: reading\<close>

text \<open>
  \<^verbatim>\<open>_parse_sample_ids(dm_f, delimiter)\<close>. The stream is the list of the lines its
  iterator still has to yield; the result carries the lines left behind the header,
  where the loop of \<^verbatim>\<open>from_file\<close> resumes.
\<close>

fun parse_sample_ids :: "string \<Rightarrow> string list \<Rightarrow> exn + (string list \<times> string list)" where
  "parse_sample_ids delimiter [] = Inl MissingHeaderError"
| "parse_sample_ids delimiter (line # dm_f) =
     (let l = strip line in
      if l \<noteq> [] \<and> \<not> startswith l ''#'' then
        (case py_split l delimiter of
           Inl e \<Rightarrow> Inl e
         | Inr sids \<Rightarrow> Inr (sids, dm_f))
      else parse_sample_ids delimiter dm_f)"

text \<open>\<^verbatim>\<open>np.asarray(tokens, dtype='float')\<close>: every token converted, or \<^verbatim>\<open>ValueError\<close>.\<close>

fun asarray_float :: "(string \<Rightarrow> pyfloat option) \<Rightarrow> string list \<Rightarrow> pyfloat list option" where
  "asarray_float to_float [] = Some []"
| "asarray_float to_float (t # ts) =
     (case to_float t of
        None \<Rightarrow> None
      | Some x \<Rightarrow> (case asarray_float to_float ts of None \<Rightarrow> None | Some xs \<Rightarrow> Some (x # xs)))"

definition msg_extra_rows :: string where
  "msg_extra_rows = ''Encountered extra rows without corresponding sample IDs in the header.''"

definition msg_row_length :: "nat \<Rightarrow> string" where
  "msg_row_length row_number =
     ''The number of values in row number '' @ str_nat row_number
       @ '' is not equal to the number of sample IDs in the header.''"

text \<open>
  The loop of \<^verbatim>\<open>from_file\<close> over the remaining lines. \<open>rows\<close> holds the rows of
  \<^verbatim>\<open>data\<close> assigned so far, rows \<open>0\<close> to \<open>curr_row_idx - 1\<close>; the rows behind them are
  what \<^verbatim>\<open>np.empty\<close> left there, and no return exposes them, since the matrix is built
  only when \<open>curr_row_idx = num_sids\<close>. The result is the pair of \<open>rows\<close> and
  \<open>curr_row_idx\<close> when the stream is exhausted.
\<close>

fun read_rows ::
  "(string \<Rightarrow> pyfloat option) \<Rightarrow> string \<Rightarrow> string list \<Rightarrow> pyfloat list list \<Rightarrow> nat \<Rightarrow>
   string list \<Rightarrow> exn + (pyfloat list list \<times> nat)" where
  "read_rows to_float delimiter sids rows curr_row_idx [] = Inr (rows, curr_row_idx)"
| "read_rows to_float delimiter sids rows curr_row_idx (line # dm_f) =
     (let l = strip line; num_sids = length sids in
      if l = [] then read_rows to_float delimiter sids rows curr_row_idx dm_f
      else if curr_row_idx \<ge> num_sids then Inl (DistanceMatrixFormatError msg_extra_rows)
      else
        (case py_split l delimiter of
           Inl e \<Rightarrow> Inl e
         | Inr tokens \<Rightarrow>
             if length tokens \<noteq> num_sids + 1 then
               Inl (DistanceMatrixFormatError (msg_row_length (curr_row_idx + 1)))
             else if hd tokens = sids ! curr_row_idx then
               (case asarray_float to_float (tl tokens) of
                  None \<Rightarrow> Inl ValueError
                | Some vals \<Rightarrow>
                    read_rows to_float delimiter sids (rows @ [vals]) (curr_row_idx + 1) dm_f)
             else Inl SampleIDMismatchError))"

text \<open>
  \<^verbatim>\<open>DistanceMatrix.from_file(dm_f, delimiter)\<close>; \<open>to_float\<close> is numpy's reading of
  one token as a float (\<open>None\<close> when it raises).
\<close>

definition from_file ::
  "(string \<Rightarrow> pyfloat option) \<Rightarrow> string \<Rightarrow> string list \<Rightarrow> exn + distance_matrix" where
  "from_file to_float delimiter dm_f =
     (case parse_sample_ids delimiter dm_f of
        Inl e \<Rightarrow> Inl e
      | Inr (sids, rest) \<Rightarrow>
          (let num_sids = length sids in
           case read_rows to_float delimiter sids [] 0 rest of
             Inl e \<Rightarrow> Inl e
           | Inr (rows, curr_row_idx) \<Rightarrow>
               if curr_row_idx \<noteq> num_sids then Inl (MissingDataError curr_row_idx num_sids)
               else init \<lparr>shape = [num_sids, num_sids], flat = concat rows\<rparr> sids))"

text \<open>
  The setter of \<^verbatim>\<open>sample_ids\<close>. It returns the exception raised, if any, together
  with the state of the instance afterwards.
\<close>

definition set_sample_ids ::
  "distance_matrix \<Rightarrow> string list \<Rightarrow> exn option \<times> distance_matrix" where
  "set_sample_ids self ids =
     (case validate (data self) ids of
        Inl e \<Rightarrow> (Some e, self)
      | Inr _ \<Rightarrow> (None, self\<lparr>sample_ids := ids, sample_index := index_list ids\<rparr>))"

definition redundant_form :: "distance_matrix \<Rightarrow> ndarray" where
  "redundant_form self = data self"

definition transpose_dm :: "distance_matrix \<Rightarrow> distance_matrix" where
  "transpose_dm self = self"

text \<open>\<^verbatim>\<open>copy\<close>: a new instance built from a copy of the array and of the IDs.\<close>

definition copy :: "distance_matrix \<Rightarrow> exn + distance_matrix" where
  "copy self = init (data self) (sample_ids self)"

text \<open>
  \<^verbatim>\<open>__getitem__(index)\<close>. The argument is a string or anything else; numpy's own
  \<^verbatim>\<open>ndarray.__getitem__\<close> is the parameter \<open>nd_getitem\<close>, which both branches call:
  the first with the integer stored in \<^verbatim>\<open>_sample_index\<close>, the second with the
  argument as it came.
\<close>

datatype 'x np_index = IntIndex nat | OtherIndex 'x

datatype 'x py_index = StrIndex string | NonStrIndex "'x np_index"

definition msg_missing_id :: "string \<Rightarrow> string" where
  "msg_missing_id index =
     ''The sample ID '' @ [CHR 0x27] @ index @ [CHR 0x27] @ '' is not in the distance matrix.''"

definition getitem ::
  "(ndarray \<Rightarrow> 'x np_index \<Rightarrow> 'r) \<Rightarrow> distance_matrix \<Rightarrow> 'x py_index \<Rightarrow> exn + 'r" where
  "getitem nd_getitem self index =
     (case index of
        StrIndex s \<Rightarrow>
          (case sample_index self s of
             Some i \<Rightarrow> Inr (nd_getitem (data self) (IntIndex i))
           | None \<Rightarrow> Inl (MissingSampleIDError (msg_missing_id s)))
      | NonStrIndex ix \<Rightarrow> Inr (nd_getitem (data self) ix))"

text \<open>
  \<^verbatim>\<open>__eq__(other)\<close>. \<open>other\<close> is any object: reading one of its attributes yields
  a value or raises, \<^verbatim>\<open>AttributeError\<close> when the attribute is absent. A value is of the
  kind a \<^verbatim>\<open>DistanceMatrix\<close> has there (a shape tuple, a tuple of strings, an array), or
  of another kind. Of a value of another kind the model keeps what the test made on it
  does: \<^verbatim>\<open>self.x != other.x\<close> with the truth test of \<^verbatim>\<open>if\<close> for the shape and the
  IDs, \<^verbatim>\<open>np.array_equal\<close> for the array; that is a boolean, or the exception raised.
  So an \<^verbatim>\<open>ndarray\<close> of several IDs in \<^verbatim>\<open>other.sample_ids\<close> is
  \<open>Foreign (Inl ValueError)\<close>: \<^verbatim>\<open>!=\<close> against the tuple compares element by element,
  and the truth value of an array of more than one element is refused.
\<close>

datatype 'a pyvalue = Native 'a | Foreign "exn + bool"

record py_object =
  get_shape :: "exn + nat list pyvalue"
  get_sample_ids :: "exn + string list pyvalue"
  get_data :: "exn + ndarray pyvalue"

text \<open>\<^verbatim>\<open>if x != v\<close>, for the shape and for the IDs.\<close>

definition ne_test :: "'a \<Rightarrow> 'a pyvalue \<Rightarrow> exn + bool" where
  "ne_test x v = (case v of Native y \<Rightarrow> Inr (x \<noteq> y) | Foreign r \<Rightarrow> r)"

text \<open>\<^verbatim>\<open>np.array_equal(d, v)\<close>, for the array.\<close>

definition array_equal_test :: "ndarray \<Rightarrow> ndarray pyvalue \<Rightarrow> exn + bool" where
  "array_equal_test d v = (case v of Native d' \<Rightarrow> Inr (array_equal d d') | Foreign r \<Rightarrow> r)"

text \<open>
  The \<^verbatim>\<open>try\<close> block has the single handler \<^verbatim>\<open>except AttributeError\<close>, which sets
  the result to False; any other exception leaves the method.
\<close>

definition except_AttributeError :: "exn \<Rightarrow> exn + bool" where
  "except_AttributeError e = (if e = AttributeError then Inr False else Inl e)"

definition dm_eq :: "distance_matrix \<Rightarrow> py_object \<Rightarrow> exn + bool" where
  "dm_eq self other =
     (case get_shape other of
        Inl e \<Rightarrow> except_AttributeError e
      | Inr other_shape \<Rightarrow>
          (case ne_test (shape (data self)) other_shape of
             Inl e \<Rightarrow> except_AttributeError e
           | Inr shapes_differ \<Rightarrow>
               if shapes_differ then Inr False
               else
                 (case get_sample_ids other of
                    Inl e \<Rightarrow> except_AttributeError e
                  | Inr other_ids \<Rightarrow>
                      (case ne_test (sample_ids self) other_ids of
                         Inl e \<Rightarrow> except_AttributeError e
                       | Inr ids_differ \<Rightarrow>
                           if ids_differ then Inr False
                           else
                             (case get_data other of
                                Inl e \<Rightarrow> except_AttributeError e
                              | Inr other_data \<Rightarrow>
                                  (case array_equal_test (data self) other_data of
                                     Inl e \<Rightarrow> except_AttributeError e
                                   | Inr arrays_equal \<Rightarrow>
                                       if \<not> arrays_equal then Inr False else Inr True))))))"

text \<open>A \<^verbatim>\<open>DistanceMatrix\<close> seen as the right operand of \<^verbatim>\<open>==\<close>.\<close>

definition as_object :: "distance_matrix \<Rightarrow> py_object" where
  "as_object m =
     \<lparr>get_shape = Inr (Native (shape (data m))), get_sample_ids = Inr (Native (sample_ids m)),
      get_data = Inr (Native (data m))\<rparr>"

section \<open>The text codec: writing\<close>

text \<open>
  Iterating over an array yields its sub-arrays along the first axis: the rows of a
  2-dimensional array, which is what a \<^verbatim>\<open>DistanceMatrix\<close> holds.
\<close>

definition iter_rows :: "ndarray \<Rightarrow> pyfloat list list" where
  "iter_rows d =
     (case shape d of
        [] \<Rightarrow> []
      | r # rest \<Rightarrow>
          map (\<lambda>i. take (prod_list rest) (drop (i * prod_list rest) (flat d))) [0..<r])"

definition format_sample_ids :: "string \<Rightarrow> distance_matrix \<Rightarrow> string" where
  "format_sample_ids delimiter self = join delimiter ([] # sample_ids self)"

text \<open>
  \<^verbatim>\<open>to_file(out_f, delimiter)\<close>: the text written to \<open>out_f\<close>, all writes in order.
  \<open>to_str\<close> is numpy's writing of one float as text
  (\<^verbatim>\<open>np.asarray(vals, dtype=np.str)\<close>).
\<close>

definition write_row :: "(pyfloat \<Rightarrow> string) \<Rightarrow> string \<Rightarrow> string \<times> pyfloat list \<Rightarrow> string" where
  "write_row to_str delimiter = (\<lambda>(sid, vals).
     sid @ delimiter @ join delimiter (map to_str vals) @ [CHR 0x0A])"

definition to_file :: "(pyfloat \<Rightarrow> string) \<Rightarrow> string \<Rightarrow> distance_matrix \<Rightarrow> string" where
  "to_file to_str delimiter self =
     format_sample_ids delimiter self @ [CHR 0x0A]
       @ concat (map (write_row to_str delimiter) (zip (sample_ids self) (iter_rows (data self))))"

section \<open>The random generator\<close>

text \<open>
  \<^verbatim>\<open>random_distance_matrix(num_samples, sample_ids)\<close>. \<open>rnd i j\<close> is the draw
  \<^verbatim>\<open>np.random.rand\<close> put at position \<open>(i, j)\<close>, a finite value. \<^verbatim>\<open>np.tril(..., -1)\<close>
  keeps the entries strictly below the diagonal and zeroes the others; the sum with the
  transpose adds a draw and a zero, or two zeros, which is exact.
\<close>

definition tril :: "(nat \<Rightarrow> nat \<Rightarrow> rat) \<Rightarrow> nat \<Rightarrow> nat \<Rightarrow> rat" where
  "tril rnd i j = (if j < i then rnd i j else 0)"

definition random_data :: "(nat \<Rightarrow> nat \<Rightarrow> rat) \<Rightarrow> nat \<Rightarrow> ndarray" where
  "random_data rnd num_samples =
     \<lparr>shape = [num_samples, num_samples],
      flat = concat (map (\<lambda>i. map (\<lambda>j. Finite (tril rnd i j + tril rnd j i)) [0..<num_samples])
                         [0..<num_samples])\<rparr>"

text \<open>\<^verbatim>\<open>not sample_ids\<close>: true of \<^verbatim>\<open>None\<close> and of an empty sequence.\<close>

definition falsy :: "string list option \<Rightarrow> bool" where
  "falsy ids = (case ids of None \<Rightarrow> True | Some xs \<Rightarrow> xs = [])"

definition default_sample_ids :: "nat \<Rightarrow> string list" where
  "default_sample_ids num_samples = map str_nat [1..<num_samples + 1]"

definition random_distance_matrix ::
  "(nat \<Rightarrow> nat \<Rightarrow> rat) \<Rightarrow> nat \<Rightarrow> string list option \<Rightarrow> exn + distance_matrix" where
  "random_distance_matrix rnd num_samples ids =
     init (random_data rnd num_samples)
       (if falsy ids then default_sample_ids num_samples else the ids)"

section \<open>Concrete inputs and auxiliary predicates\<close>

text \<open>
  The default delimiter, the line terminator, and the file of the docstring of
  \<^verbatim>\<open>from_file\<close>: a 2x2 matrix with the samples a and b.
\<close>

definition tab :: string where
  "tab = [CHR 0x09]"

definition newline :: string where
  "newline = [CHR 0x0A]"

definition example_file :: string where
  "example_file =
     tab @ ''a'' @ tab @ ''b'' @ newline
       @ ''a'' @ tab @ ''0.0'' @ tab @ ''1.0'' @ newline
       @ ''b'' @ tab @ ''1.0'' @ tab @ ''0.0'' @ newline"

text \<open>
  A pair of text conversions that agrees with numpy's on the two literals of that file,
  for running the codec on concrete inputs.
\<close>

definition literal_to_float :: "string \<Rightarrow> pyfloat option" where
  "literal_to_float s =
     (if s = ''0.0'' then Some (Finite 0) else if s = ''1.0'' then Some (Finite 1) else None)"

definition literal_to_str :: "pyfloat \<Rightarrow> string" where
  "literal_to_str x = (if x = Finite 1 then ''1.0'' else ''0.0'')"

text \<open>
  What holds of every instance the constructor or the setter has produced: its array and
  its IDs pass \<^verbatim>\<open>_validate\<close>, and its index is the one built from its IDs.
\<close>

definition dm_invariant :: "distance_matrix \<Rightarrow> bool" where
  "dm_invariant m =
     (validate (data m) (sample_ids m) = Inr () \<and> sample_index m = index_list (sample_ids m))"

text \<open>The matrix of the example file, as the constructor returns it.\<close>

definition example_matrix :: distance_matrix where
  "example_matrix =
     \<lparr>data = \<lparr>shape = [2, 2], flat = [Finite 0, Finite 1, Finite 1, Finite 0]\<rparr>,
      sample_ids = [''a'', ''b''], sample_index = index_list [''a'', ''b'']\<rparr>"

text \<open>
  A stand-in for numpy's indexing, for running \<open>getitem\<close>: an integer picks the row
  at that position, the one other index returns all entries.
\<close>

definition nd_row :: "ndarray \<Rightarrow> unit np_index \<Rightarrow> pyfloat list" where
  "nd_row d ix = (case ix of IntIndex i \<Rightarrow> iter_rows d ! i | OtherIndex _ \<Rightarrow> flat d)"

text \<open>An outcome that is a value, or \<^verbatim>\<open>AttributeError\<close> and no other exception.\<close>

definition only_AttributeError :: "exn + 'a \<Rightarrow> bool" where
  "only_AttributeError r = (case r of Inl e \<Rightarrow> e = AttributeError | Inr _ \<Rightarrow> True)"

text \<open>
  Neither reading the attribute nor the test made on its value raises anything but
  \<^verbatim>\<open>AttributeError\<close>.
\<close>

definition tame :: "exn + 'a pyvalue \<Rightarrow> bool" where
  "tame r =
     (case r of
        Inl e \<Rightarrow> e = AttributeError
      | Inr (Native _) \<Rightarrow> True
      | Inr (Foreign t) \<Rightarrow> only_AttributeError t)"

text \<open>A field of the file that survives stripping and splitting: not empty, no whitespace.\<close>

definition plain_field :: "string \<Rightarrow> bool" where
  "plain_field s = (s \<noteq> [] \<and> list_all (\<lambda>c. \<not> isspace c) s)"

text \<open>
  The two text conversions agree on the float \<open>x\<close>: what numpy writes for it is a plain
  field, and numpy reads \<open>x\<close> back from it.
\<close>

definition float_text_ok :: "(pyfloat \<Rightarrow> string) \<Rightarrow> (string \<Rightarrow> pyfloat option) \<Rightarrow> pyfloat \<Rightarrow> bool" where
  "float_text_ok to_str to_float x = (plain_field (to_str x) \<and> to_float (to_str x) = Some x)"

text \<open>The matrix of the example file under IDs with a space inside.\<close>

definition spaced_matrix :: distance_matrix where
  "spaced_matrix =
     \<lparr>data = \<lparr>shape = [2, 2], flat = [Finite 0, Finite 1, Finite 1, Finite 0]\<rparr>,
      sample_ids = [''sample 1'', ''sample 2''],
      sample_index = index_list [''sample 1'', ''sample 2'']\<rparr>"

text \<open>A 1x1 matrix whose only ID begins with a space.\<close>

definition padded_matrix :: distance_matrix where
  "padded_matrix =
     \<lparr>data = \<lparr>shape = [1, 1], flat = [Finite 0]\<rparr>,
      sample_ids = ['' a''], sample_index = index_list ['' a'']\<rparr>"



text \<open>\<^verbatim>\<open>int(s)\<close> for a string of decimal digits: the number that a decimal numeral names.\<close>

definition nat_of_digits :: "string \<Rightarrow> nat" where
  "nat_of_digits s = foldl (\<lambda>a c. 10 * a + (of_char c - 48)) 0 s"

text \<open>\<^verbatim>\<open>sep in s\<close>: the string \<open>sep\<close> occurs in \<open>s\<close>.\<close>

fun contains :: "string \<Rightarrow> string \<Rightarrow> bool" where
  "contains sep [] = (sep = [])"
| "contains sep (c # cs) = (take (length sep) (c # cs) = sep \<or> contains sep cs)"

text \<open>
  A sample ID that the file format can carry with the given delimiter: not empty, no
  whitespace at either end, since the reader strips every line; the delimiter does not
  occur in it; and it holds no newline.
\<close>

definition plain_id :: "string \<Rightarrow> string \<Rightarrow> bool" where
  "plain_id delimiter s =
     (s \<noteq> [] \<and> \<not> isspace (hd s) \<and> \<not> isspace (last s) \<and> \<not> contains delimiter s
      \<and> CHR 0x0A \<notin> set s)"

section \<open>Properties of the reader\<close>

lemma split_from_nonempty: "split_from sep tok s \<noteq> []"
  by (induction sep tok s rule: split_from.induct) auto

lemma parse_sample_ids_skipped:
  "list_all (\<lambda>l. strip l = [] \<or> startswith (strip l) ''#'') dm_f \<Longrightarrow>
   parse_sample_ids delimiter dm_f = Inl MissingHeaderError"
  by (induction dm_f) (auto simp: Let_def)

lemma parse_sample_ids_append:
  "parse_sample_ids delimiter xs = Inr (sids, rest) \<Longrightarrow>
   parse_sample_ids delimiter (xs @ ys) = Inr (sids, rest @ ys)"
  by (induction xs) (auto simp: Let_def split: sum.splits if_splits)

lemma parse_sample_ids_header:
  "parse_sample_ids delimiter xs = Inr (sids, rest) \<Longrightarrow> delimiter \<noteq> [] \<and> sids \<noteq> []"
  by (induction xs) (auto simp: Let_def py_split_def split_from_nonempty split: sum.splits if_splits)

lemma parse_sample_ids_filter:
  "parse_sample_ids d (filter (\<lambda>l. strip l \<noteq> []) xs) =
     (case parse_sample_ids d xs of
        Inl e \<Rightarrow> Inl e
      | Inr (sids, rest) \<Rightarrow> Inr (sids, filter (\<lambda>l. strip l \<noteq> []) rest))"
  by (induction xs) (auto simp: Let_def split: sum.splits)

lemma read_rows_append:
  "read_rows tf d sids rows i (xs @ ys) =
     (case read_rows tf d sids rows i xs of
        Inl e \<Rightarrow> Inl e
      | Inr (rows', i') \<Rightarrow> read_rows tf d sids rows' i' ys)"
  by (induction xs arbitrary: rows i) (auto simp: Let_def split: sum.splits option.splits)

lemma read_rows_filter:
  "read_rows tf d sids rows i (filter (\<lambda>l. strip l \<noteq> []) xs) = read_rows tf d sids rows i xs"
  by (induction xs arbitrary: rows i) (auto simp: Let_def split: sum.splits option.splits)

lemma read_rows_blank:
  "list_all (\<lambda>l. strip l = []) xs \<Longrightarrow> read_rows tf d sids rows i xs = Inr (rows, i)"
  by (induction xs) (auto simp: Let_def)

lemma read_rows_bound:
  "read_rows tf d sids rows i xs = Inr (rows', k) \<Longrightarrow> i \<le> length sids \<Longrightarrow> k \<le> length sids"
  by (induction xs arbitrary: rows i) (auto simp: Let_def split: sum.splits option.splits if_splits)

lemma read_rows_count:
  "read_rows tf d sids rows i xs = Inr (rows', k) \<Longrightarrow>
   k = i + length (filter (\<lambda>l. strip l \<noteq> []) xs)"
proof (induction xs arbitrary: rows i)
  case Nil
  then show ?case by simp
next
  case (Cons l xs)
  show ?case
  proof (cases "strip l = []")
    case True
    with Cons show ?thesis by (simp add: Let_def)
  next
    case False
    from Cons.prems False obtain vals where
      "read_rows tf d sids (rows @ [vals]) (i + 1) xs = Inr (rows', k)"
      by (auto simp: Let_def split: sum.splits option.splits if_splits)
    from Cons.IH [OF this] False show ?thesis by simp
  qed
qed

lemma example_lines:
  "file_lines example_file =
     [tab @ ''a'' @ tab @ ''b'' @ newline,
      ''a'' @ tab @ ''0.0'' @ tab @ ''1.0'' @ newline,
      ''b'' @ tab @ ''1.0'' @ tab @ ''0.0'' @ newline]"
  by (simp add: file_lines_def example_file_def tab_def newline_def)

lemma example_header:
  "parse_sample_ids tab (file_lines example_file) =
     Inr ([''a'', ''b''],
          [''a'' @ tab @ ''0.0'' @ tab @ ''1.0'' @ newline,
           ''b'' @ tab @ ''1.0'' @ tab @ ''0.0'' @ newline])"
  by (simp add: example_lines)
     (simp add: tab_def newline_def strip_def isspace_def startswith_def py_split_def)

lemma example_rows:
  assumes "to_float ''0.0'' = Some (Finite 0)" and "to_float ''1.0'' = Some (Finite 1)"
  shows "read_rows to_float tab [''a'', ''b''] [] 0
           [''a'' @ tab @ ''0.0'' @ tab @ ''1.0'' @ newline,
            ''b'' @ tab @ ''1.0'' @ tab @ ''0.0'' @ newline]
         = Inr ([[Finite 0, Finite 1], [Finite 1, Finite 0]], 2)"
  using assms by (simp add: tab_def newline_def strip_def isspace_def py_split_def)

lemma example_valid:
  "validate \<lparr>shape = [2, 2], flat = [Finite 0, Finite 1, Finite 1, Finite 0]\<rparr>
     [''a'', ''b''] = Inr ()"
  by (simp add: validate_def is_valid_dm_def eq_transpose_all_def diagonal_zero_def
      item2_def feq_def upt_rec)

text \<open>
  C7. The file \<^verbatim>\<open>"\ta\tb\na\t0.0\t1.0\nb\t1.0\t0.0\n"\<close>, read with the default tab
  delimiter, parses: \<^verbatim>\<open>from_file\<close> returns a 2x2 matrix with the sample IDs
  \<^verbatim>\<open>("a", "b")\<close> and the buffer \<^verbatim>\<open>[[0, 1], [1, 0]]\<close>. The two hypotheses say what numpy
  reads from the two float literals of the file.
\<close>

theorem from_file_example:
  assumes "to_float ''0.0'' = Some (Finite 0)" and "to_float ''1.0'' = Some (Finite 1)"
  shows "from_file to_float tab (file_lines example_file) =
           Inr \<lparr>data = \<lparr>shape = [2, 2], flat = [Finite 0, Finite 1, Finite 1, Finite 0]\<rparr>,
                sample_ids = [''a'', ''b''],
                sample_index = index_list [''a'', ''b'']\<rparr>"
  unfolding from_file_def example_header sum.case prod.case Let_def example_rows [OF assms]
  using example_valid by (simp add: init_def numeral_2_eq_2)

theorem from_file_example_witness:
  "from_file literal_to_float tab (file_lines example_file) =
           Inr \<lparr>data = \<lparr>shape = [2, 2], flat = [Finite 0, Finite 1, Finite 1, Finite 0]\<rparr>,
                sample_ids = [''a'', ''b''],
                sample_index = index_list [''a'', ''b'']\<rparr>"
  using from_file_example [of literal_to_float] by (simp add: literal_to_float_def)

lemma from_file_missing_header:
  "list_all (\<lambda>l. strip l = [] \<or> startswith (strip l) ''#'') dm_f \<Longrightarrow>
   from_file tf d dm_f = Inl MissingHeaderError"
  by (simp add: from_file_def parse_sample_ids_skipped)

lemma from_file_extra_rows:
  assumes "parse_sample_ids d dm_f = Inr (sids, rest)"
    and "read_rows tf d sids [] 0 rest = Inr (rows, length sids)"
    and "strip l \<noteq> []"
  shows "from_file tf d (dm_f @ l # later) = Inl (DistanceMatrixFormatError msg_extra_rows)"
proof -
  have "read_rows tf d sids [] 0 (rest @ l # later) =
          Inl (DistanceMatrixFormatError msg_extra_rows)"
    using assms(2,3) by (simp add: read_rows_append Let_def)
  then show ?thesis
    by (simp add: from_file_def parse_sample_ids_append [OF assms(1)])
qed

lemma from_file_missing_data:
  assumes "parse_sample_ids d dm_f = Inr (sids, rest)"
    and "read_rows tf d sids [] 0 rest = Inr (rows, k)"
    and "k \<noteq> length sids"
  shows "from_file tf d dm_f = Inl (MissingDataError k (length sids))"
  using assms by (simp add: from_file_def)

lemma from_file_skips_blank_lines:
  "from_file tf d (filter (\<lambda>l. strip l \<noteq> []) dm_f) = from_file tf d dm_f"
  by (cases "parse_sample_ids d dm_f")
     (auto simp: from_file_def parse_sample_ids_filter read_rows_filter)

text \<open>
  C5. \<^verbatim>\<open>from_file\<close> fails with the missing-header error when the stream holds only
  blank and comment lines. Once the header is found, with \<open>N\<close> the number of its IDs and
  \<open>k\<close> the number of rows filled when the lines \<open>rest\<close> behind it are exhausted: \<open>k\<close> is
  the number of non-blank lines of \<open>rest\<close> (a blank line is never counted) and is at
  most \<open>N\<close>; with \<open>k < N\<close> the call fails with \<^verbatim>\<open>MissingDataError\<close> carrying the
  actual count \<open>k\<close> and the expected count \<open>N\<close>, in particular with \<open>k = 0\<close> when
  no data row follows the header; with \<open>k = N\<close>, one more non-blank line fails with
  the extra-rows error. Dropping the blank lines of a stream never changes the result.
\<close>

theorem from_file_stream_errors:
  "(list_all (\<lambda>l. strip l = [] \<or> startswith (strip l) ''#'') comments \<longrightarrow>
      from_file to_float delimiter comments = Inl MissingHeaderError)
   \<and> (parse_sample_ids delimiter dm_f = Inr (sids, rest)
        \<and> read_rows to_float delimiter sids [] 0 rest = Inr (rows, k) \<longrightarrow>
      k = length (filter (\<lambda>l. strip l \<noteq> []) rest) \<and> k \<le> length sids
      \<and> (k < length sids \<longrightarrow>
           from_file to_float delimiter dm_f = Inl (MissingDataError k (length sids)))
      \<and> (k = length sids \<and> strip l \<noteq> [] \<longrightarrow>
           from_file to_float delimiter (dm_f @ l # later)
             = Inl (DistanceMatrixFormatError msg_extra_rows)))
   \<and> (parse_sample_ids delimiter dm_f = Inr (sids, rest) \<and> list_all (\<lambda>l. strip l = []) rest \<longrightarrow>
      from_file to_float delimiter dm_f = Inl (MissingDataError 0 (length sids)))
   \<and> from_file to_float delimiter (filter (\<lambda>l. strip l \<noteq> []) stream)
       = from_file to_float delimiter stream"
proof (intro conjI impI)
  assume "list_all (\<lambda>l. strip l = [] \<or> startswith (strip l) ''#'') comments"
  then show "from_file to_float delimiter comments = Inl MissingHeaderError"
    by (rule from_file_missing_header)
next
  assume a: "parse_sample_ids delimiter dm_f = Inr (sids, rest)
        \<and> read_rows to_float delimiter sids [] 0 rest = Inr (rows, k)"
  from a show "k = length (filter (\<lambda>l. strip l \<noteq> []) rest)"
    using read_rows_count [of to_float delimiter sids "[]" 0 rest rows k] by simp
  from a show "k \<le> length sids"
    using read_rows_bound [of to_float delimiter sids "[]" 0 rest rows k] by simp
  {
    assume "k < length sids"
    with a show "from_file to_float delimiter dm_f = Inl (MissingDataError k (length sids))"
      by (simp add: from_file_missing_data)
  }
  {
    assume "k = length sids \<and> strip l \<noteq> []"
    with a show "from_file to_float delimiter (dm_f @ l # later)
             = Inl (DistanceMatrixFormatError msg_extra_rows)"
      by (simp add: from_file_extra_rows)
  }
next
  assume a: "parse_sample_ids delimiter dm_f = Inr (sids, rest) \<and> list_all (\<lambda>l. strip l = []) rest"
  then have "read_rows to_float delimiter sids [] 0 rest = Inr ([], 0)"
    by (simp add: read_rows_blank)
  moreover from a have "sids \<noteq> []"
    using parse_sample_ids_header by blast
  ultimately show "from_file to_float delimiter dm_f = Inl (MissingDataError 0 (length sids))"
    using a by (simp add: from_file_missing_data)
next
  show "from_file to_float delimiter (filter (\<lambda>l. strip l \<noteq> []) stream)
       = from_file to_float delimiter stream"
    by (rule from_file_skips_blank_lines)
qed

lemma digit_char_value: "d < 10 \<Longrightarrow> (of_char (digit_char d) :: nat) = 48 + d"
  by (simp add: digit_char_def)

lemma nat_of_digits_str_nat: "nat_of_digits (str_nat n) = n"
proof (induction n rule: str_nat.induct)
  case (1 n)
  show ?case
  proof (cases "n < 10")
    case True
    then show ?thesis
      by (simp add: str_nat.simps [of n] nat_of_digits_def digit_char_value)
  next
    case False
    with "1.IH" have "nat_of_digits (str_nat (n div 10)) = n div 10"
      by simp
    with False show ?thesis
      by (simp add: str_nat.simps [of n] nat_of_digits_def digit_char_value)
  qed
qed

lemma read_rows_line_cases:
  assumes "delimiter \<noteq> []" and "strip line \<noteq> []" and "curr_row_idx < length sids"
    and "tokens = split_from delimiter [] (strip line)"
  shows "(length tokens \<noteq> length sids + 1 \<longrightarrow>
            read_rows to_float delimiter sids rows curr_row_idx (line # dm_f)
              = Inl (DistanceMatrixFormatError (msg_row_length (curr_row_idx + 1))))
       \<and> (length tokens = length sids + 1 \<and> hd tokens \<noteq> sids ! curr_row_idx \<longrightarrow>
            read_rows to_float delimiter sids rows curr_row_idx (line # dm_f)
              = Inl SampleIDMismatchError)
       \<and> (length tokens = length sids + 1 \<and> hd tokens = sids ! curr_row_idx \<longrightarrow>
            read_rows to_float delimiter sids rows curr_row_idx (line # dm_f)
              = (case asarray_float to_float (tl tokens) of
                   None \<Rightarrow> Inl ValueError
                 | Some vals \<Rightarrow>
                     read_rows to_float delimiter sids (rows @ [vals]) (curr_row_idx + 1) dm_f))"
  using assms by (simp add: Let_def py_split_def)

text \<open>
  C6. One non-blank line met by the loop of \<^verbatim>\<open>from_file\<close> while rows are still
  missing (\<open>curr_row_idx < N\<close>; the delimiter is not empty, or the header would not
  have been split). If the split does not yield \<open>N + 1\<close> fields, the call fails with
  the malformed-row error naming the row number \<open>curr_row_idx + 1\<close>. Otherwise, if the
  first field is not the header ID at \<open>curr_row_idx\<close>, it fails with
  \<^verbatim>\<open>SampleIDMismatchError\<close>. Only when both tests pass are the remaining fields read
  as floats and stored as the next row, and the loop goes on with the next line.
  The message of the malformed-row error is the text of the source around the decimal
  numeral of \<open>curr_row_idx + 1\<close>, the number of the row counted from 1.
\<close>

theorem read_rows_line_checks:
  assumes "delimiter \<noteq> []" and "strip line \<noteq> []" and "curr_row_idx < length sids"
    and "tokens = split_from delimiter [] (strip line)"
  shows "(length tokens \<noteq> length sids + 1 \<longrightarrow>
            read_rows to_float delimiter sids rows curr_row_idx (line # dm_f)
              = Inl (DistanceMatrixFormatError (msg_row_length (curr_row_idx + 1))))
       \<and> (length tokens = length sids + 1 \<and> hd tokens \<noteq> sids ! curr_row_idx \<longrightarrow>
            read_rows to_float delimiter sids rows curr_row_idx (line # dm_f)
              = Inl SampleIDMismatchError)
       \<and> (length tokens = length sids + 1 \<and> hd tokens = sids ! curr_row_idx \<longrightarrow>
            read_rows to_float delimiter sids rows curr_row_idx (line # dm_f)
              = (case asarray_float to_float (tl tokens) of
                   None \<Rightarrow> Inl ValueError
                 | Some vals \<Rightarrow>
                     read_rows to_float delimiter sids (rows @ [vals]) (curr_row_idx + 1) dm_f))
       \<and> msg_row_length (curr_row_idx + 1)
           = ''The number of values in row number '' @ str_nat (curr_row_idx + 1)
               @ '' is not equal to the number of sample IDs in the header.''
       \<and> nat_of_digits (str_nat (curr_row_idx + 1)) = curr_row_idx + 1"
proof (intro conjI)
  show "msg_row_length (curr_row_idx + 1)
           = ''The number of values in row number '' @ str_nat (curr_row_idx + 1)
               @ '' is not equal to the number of sample IDs in the header.''"
    by (rule msg_row_length_def)
  show "nat_of_digits (str_nat (curr_row_idx + 1)) = curr_row_idx + 1"
    by (rule nat_of_digits_str_nat)
qed (use read_rows_line_cases [OF assms] in blast)+


lemma header_only:
  "parse_sample_ids tab [tab @ ''a'' @ tab @ ''b'' @ newline, newline] = Inr ([''a'', ''b''], [newline])"
  by (simp add: tab_def newline_def strip_def isspace_def startswith_def py_split_def)

theorem from_file_stream_errors_witness:
  "from_file literal_to_float tab [''# distances'' @ newline, newline] = Inl MissingHeaderError
   \<and> from_file literal_to_float tab (file_lines example_file @ [''c''])
       = Inl (DistanceMatrixFormatError msg_extra_rows)
   \<and> from_file literal_to_float tab [tab @ ''a'' @ tab @ ''b'' @ newline, newline]
       = Inl (MissingDataError 0 2)"
proof -
  have c: "list_all (\<lambda>l. strip l = [] \<or> startswith (strip l) ''#'')
             [''# distances'' @ newline, newline]"
    by (simp add: newline_def strip_def isspace_def startswith_def)
  have r: "read_rows literal_to_float tab [''a'', ''b''] [] 0
             [''a'' @ tab @ ''0.0'' @ tab @ ''1.0'' @ newline,
              ''b'' @ tab @ ''1.0'' @ tab @ ''0.0'' @ newline]
           = Inr ([[Finite 0, Finite 1], [Finite 1, Finite 0]], 2)"
    by (rule example_rows) (simp_all add: literal_to_float_def)
  have s: "strip ''c'' \<noteq> []"
    by (simp add: strip_def isspace_def)
  have b: "list_all (\<lambda>l. strip l = []) [newline]"
    by (simp add: newline_def strip_def isspace_def)
  from from_file_stream_errors
    [where comments = "[''# distances'' @ newline, newline]" and to_float = literal_to_float
       and delimiter = tab and dm_f = "file_lines example_file" and sids = "[''a'', ''b'']"
       and rest = "[''a'' @ tab @ ''0.0'' @ tab @ ''1.0'' @ newline,
                    ''b'' @ tab @ ''1.0'' @ tab @ ''0.0'' @ newline]"
       and rows = "[[Finite 0, Finite 1], [Finite 1, Finite 0]]" and k = 2 and l = "''c''"
       and later = "[]"]
    c r s example_header
  have "from_file literal_to_float tab [''# distances'' @ newline, newline] = Inl MissingHeaderError
     \<and> from_file literal_to_float tab (file_lines example_file @ [''c''])
       = Inl (DistanceMatrixFormatError msg_extra_rows)"
    by simp
  moreover
  from from_file_stream_errors
    [where to_float = literal_to_float and delimiter = tab
       and dm_f = "[tab @ ''a'' @ tab @ ''b'' @ newline, newline]" and sids = "[''a'', ''b'']"
       and rest = "[newline]"]
    b header_only
  have "from_file literal_to_float tab [tab @ ''a'' @ tab @ ''b'' @ newline, newline]
       = Inl (MissingDataError 0 2)"
    by simp
  ultimately show ?thesis by simp
qed

lemma char_of_digits: "char_of (49::nat) = CHR ''1''" "char_of (50::nat) = CHR ''2''"
  by code_simp+

lemma str_nat_1: "str_nat 1 = ''1''" "str_nat (Suc 0) = ''1''"
  by (simp_all add: str_nat.simps digit_char_def char_of_digits)

theorem read_rows_line_checks_witness:
  "read_rows literal_to_float tab [''a'', ''b''] [] 0 [''a'' @ tab @ ''0.0'' @ newline]
     = Inl (DistanceMatrixFormatError
         ''The number of values in row number 1 is not equal to the number of sample IDs in the header.'')
   \<and> read_rows literal_to_float tab [''a'', ''b''] [] 0 [''c'' @ tab @ ''0.0'' @ tab @ ''1.0'' @ newline]
     = Inl SampleIDMismatchError
   \<and> read_rows literal_to_float tab [''a'', ''b''] [] 0 [''a'' @ tab @ ''0.0'' @ tab @ ''1.0'' @ newline]
     = Inr ([[Finite 0, Finite 1]], 1)"
proof -
  have d: "tab \<noteq> []" by (simp add: tab_def)
  have k: "(0::nat) < length [''a'', ''b'']" by simp
  have s1: "strip (''a'' @ tab @ ''0.0'' @ newline) \<noteq> []"
    and t1: "[''a'', ''0.0''] = split_from tab [] (strip (''a'' @ tab @ ''0.0'' @ newline))"
    by (simp_all add: tab_def newline_def strip_def isspace_def)
  note c1 = read_rows_line_checks [OF d s1 k t1, of literal_to_float "[]" "[]"]
  have m: "msg_row_length (0 + 1)
      = ''The number of values in row number 1 is not equal to the number of sample IDs in the header.''"
    unfolding c1 [THEN conjunct2, THEN conjunct2, THEN conjunct2, THEN conjunct1]
    by (simp add: str_nat_1)
  have 1: "read_rows literal_to_float tab [''a'', ''b''] [] 0 [''a'' @ tab @ ''0.0'' @ newline]
     = Inl (DistanceMatrixFormatError
         ''The number of values in row number 1 is not equal to the number of sample IDs in the header.'')"
    unfolding m [symmetric]
    by (rule c1 [THEN conjunct1, rule_format]) simp
  have s2: "strip (''c'' @ tab @ ''0.0'' @ tab @ ''1.0'' @ newline) \<noteq> []"
    and t2: "[''c'', ''0.0'', ''1.0'']
      = split_from tab [] (strip (''c'' @ tab @ ''0.0'' @ tab @ ''1.0'' @ newline))"
    by (simp_all add: tab_def newline_def strip_def isspace_def)
  have 2: "read_rows literal_to_float tab [''a'', ''b''] [] 0
       [''c'' @ tab @ ''0.0'' @ tab @ ''1.0'' @ newline] = Inl SampleIDMismatchError"
    by (rule read_rows_line_checks [OF d s2 k t2, THEN conjunct2, THEN conjunct1, rule_format])
       simp
  have s3: "strip (''a'' @ tab @ ''0.0'' @ tab @ ''1.0'' @ newline) \<noteq> []"
    and t3: "[''a'', ''0.0'', ''1.0'']
      = split_from tab [] (strip (''a'' @ tab @ ''0.0'' @ tab @ ''1.0'' @ newline))"
    by (simp_all add: tab_def newline_def strip_def isspace_def)
  have 3: "read_rows literal_to_float tab [''a'', ''b''] [] 0
       [''a'' @ tab @ ''0.0'' @ tab @ ''1.0'' @ newline] = Inr ([[Finite 0, Finite 1]], 1)"
    using read_rows_line_checks [OF d s3 k t3, THEN conjunct2, THEN conjunct2, THEN conjunct1,
        of literal_to_float "[]" "[]"]
    by (simp add: literal_to_float_def)
  from 1 2 3 show ?thesis by blast
qed

section \<open>Properties of construction\<close>

lemma card_set_eq_length: "(length ids \<noteq> card (set ids)) = (\<not> distinct ids)"
  by (metis card_distinct distinct_card)

lemma is_valid_dm_shape: "is_valid_dm d \<Longrightarrow> \<exists>r c. shape d = [r, c]"
  by (auto simp: is_valid_dm_def split: list.splits)





lemma validate_cases:
  "validate d ids =
     (if 0 \<in> set (shape d) then Inl (DistanceMatrixError msg_size)
      else if \<not> distinct ids then Inl (DistanceMatrixError msg_unique)
      else if \<not> is_valid_dm d then Inl (DistanceMatrixError msg_structure)
      else if length ids \<noteq> hd (shape d) then Inl (DistanceMatrixError msg_count)
      else Inr ())"
proof (cases "is_valid_dm d")
  case True
  then obtain r c where "shape d = [r, c]"
    using is_valid_dm_shape by blast
  with True show ?thesis
    by (simp add: validate_def Let_def card_set_eq_length)
next
  case False
  then show ?thesis
    by (simp add: validate_def Let_def card_set_eq_length)
qed

lemma validate_error: "validate d ids = Inl e \<Longrightarrow> \<exists>msg. e = DistanceMatrixError msg"
  by (auto simp: validate_cases split: if_splits)

lemma fold_index_notin:
  "s \<notin> set xs \<Longrightarrow> fold (\<lambda>(idx, id) m. m(id \<mapsto> idx)) (enumerate n xs) m s = m s"
  by (induction xs arbitrary: n m) auto

lemma fold_index_nth:
  "distinct xs \<Longrightarrow> i < length xs \<Longrightarrow>
   fold (\<lambda>(idx, id) m. m(id \<mapsto> idx)) (enumerate n xs) m (xs ! i) = Some (n + i)"
proof (induction xs arbitrary: n m i)
  case Nil
  then show ?case by simp
next
  case (Cons x xs)
  show ?case
  proof (cases i)
    case 0
    from Cons.prems have "x \<notin> set xs" by simp
    from fold_index_notin [OF this, of "Suc n" "m(x \<mapsto> n)"] 0 show ?thesis
      by (simp del: fun_upd_apply) simp
  next
    case (Suc j)
    with Cons.prems Cons.IH [of j "Suc n" "m(x \<mapsto> n)"] show ?thesis
      by (simp del: fun_upd_apply)
  qed
qed

lemma index_list_nth:
  "distinct ids \<Longrightarrow> i < length ids \<Longrightarrow> index_list ids (ids ! i) = Some i"
  using fold_index_nth [of ids i 0 Map.empty] by (simp add: index_list_def)

lemma index_list_notin: "s \<notin> set ids \<Longrightarrow> index_list ids s = None"
  using fold_index_notin [of s ids 0 Map.empty] by (simp add: index_list_def)

lemma init_cases:
  "init d ids =
     (if 0 \<in> set (shape d) then Inl (DistanceMatrixError msg_size)
      else if \<not> distinct ids then Inl (DistanceMatrixError msg_unique)
      else if \<not> is_valid_dm d then Inl (DistanceMatrixError msg_structure)
      else if length ids \<noteq> hd (shape d) then Inl (DistanceMatrixError msg_count)
      else Inr \<lparr>data = d, sample_ids = ids, sample_index = index_list ids\<rparr>)"
  by (simp add: init_def validate_cases)







lemma two_by_two_valid:
  "is_valid_dm \<lparr>shape = [2, 2], flat = [Finite 0, Finite 1, Finite 1, Finite 0]\<rparr>"
  by (simp add: is_valid_dm_def eq_transpose_all_def diagonal_zero_def item2_def feq_def upt_rec)

lemma two_by_two_asymmetric:
  "\<not> is_valid_dm \<lparr>shape = [2, 2], flat = [Finite 0, Finite 1, Finite 0, Finite 0]\<rparr>"
  by (simp add: is_valid_dm_def eq_transpose_all_def diagonal_zero_def item2_def feq_def upt_rec)



section \<open>Label lookup, label replacement and equality\<close>

lemma dm_invariant_distinct: "dm_invariant m \<Longrightarrow> distinct (sample_ids m)"
  by (auto simp: dm_invariant_def validate_cases split: if_splits)

lemma dm_invariant_init: "init d ids = Inr m \<Longrightarrow> dm_invariant m"
  by (auto simp: init_def dm_invariant_def split: sum.splits)

text \<open>
  C8. On an instance, indexing with a label of \<^verbatim>\<open>sample_ids\<close> returns what numpy's
  indexing of \<^verbatim>\<open>redundant_form()\<close> returns at the position of that label, its row;
  indexing with a string that is no label raises \<^verbatim>\<open>MissingSampleIDError\<close>, whose message
  is the text of the source around the string in single quotes; an index that is no string is handed to numpy's indexing of the
  array as it is.
\<close>

theorem getitem_by_label:
  assumes "dm_invariant self"
  shows "(i < length (sample_ids self) \<longrightarrow>
            getitem nd_getitem self (StrIndex (sample_ids self ! i))
              = Inr (nd_getitem (redundant_form self) (IntIndex i)))
       \<and> (s \<notin> set (sample_ids self) \<longrightarrow>
            getitem nd_getitem self (StrIndex s) = Inl (MissingSampleIDError (msg_missing_id s)))
       \<and> getitem nd_getitem self (NonStrIndex ix) = Inr (nd_getitem (data self) ix)
       \<and> msg_missing_id s
           = ''The sample ID '' @ [CHR 0x27] @ s @ [CHR 0x27] @ '' is not in the distance matrix.''"
proof -
  from assms have idx: "sample_index self = index_list (sample_ids self)"
    by (simp add: dm_invariant_def)
  from assms have "distinct (sample_ids self)"
    by (rule dm_invariant_distinct)
  then have "(i < length (sample_ids self) \<longrightarrow>
            getitem nd_getitem self (StrIndex (sample_ids self ! i))
              = Inr (nd_getitem (redundant_form self) (IntIndex i)))
       \<and> (s \<notin> set (sample_ids self) \<longrightarrow>
            getitem nd_getitem self (StrIndex s) = Inl (MissingSampleIDError (msg_missing_id s)))
       \<and> getitem nd_getitem self (NonStrIndex ix) = Inr (nd_getitem (data self) ix)"
    by (simp add: getitem_def idx index_list_nth index_list_notin redundant_form_def)
  moreover have "msg_missing_id s
           = ''The sample ID '' @ [CHR 0x27] @ s @ [CHR 0x27] @ '' is not in the distance matrix.''"
    by (rule msg_missing_id_def)
  ultimately show ?thesis
    by blast
qed

lemma example_matrix_invariant: "dm_invariant example_matrix"
  using example_valid by (simp add: dm_invariant_def example_matrix_def)

theorem getitem_by_label_witness:
  "getitem nd_row example_matrix (StrIndex ''b'') = Inr [Finite 1, Finite 0]
   \<and> getitem nd_row example_matrix (StrIndex ''c'')
       = Inl (MissingSampleIDError
           (''The sample ID '' @ [CHR 0x27] @ ''c'' @ [CHR 0x27] @ '' is not in the distance matrix.''))
   \<and> getitem nd_row example_matrix (NonStrIndex (OtherIndex ()))
       = Inr [Finite 0, Finite 1, Finite 1, Finite 0]"
proof -
  note g = getitem_by_label [OF example_matrix_invariant, of 1 nd_row "''c''" "OtherIndex ()"]
  have 1: "getitem nd_row example_matrix (StrIndex ''b'') = Inr [Finite 1, Finite 0]"
    using g [THEN conjunct1]
    by (simp add: example_matrix_def redundant_form_def nd_row_def iter_rows_def upt_rec)
  have 2: "getitem nd_row example_matrix (StrIndex ''c'')
       = Inl (MissingSampleIDError
           (''The sample ID '' @ [CHR 0x27] @ ''c'' @ [CHR 0x27] @ '' is not in the distance matrix.''))"
    unfolding g [THEN conjunct2, THEN conjunct2, THEN conjunct2, symmetric]
    by (rule g [THEN conjunct2, THEN conjunct1, rule_format]) (simp add: example_matrix_def)
  have 3: "getitem nd_row example_matrix (NonStrIndex (OtherIndex ()))
       = Inr [Finite 0, Finite 1, Finite 1, Finite 0]"
    using g [THEN conjunct2, THEN conjunct2, THEN conjunct1]
    by (simp add: example_matrix_def nd_row_def)
  from 1 2 3 show ?thesis by blast
qed

text \<open>
  C9. Replacing the IDs of an instance. New IDs with a duplicate, or as many of them as
  differs from the row count of the array, raise \<^verbatim>\<open>DistanceMatrixError\<close> and leave the
  instance as it was: IDs, index and array. New IDs that are distinct and of the right
  count replace the old ones and the array is kept; the index is rebuilt: it sends each
  new ID to its position and knows no other string, the old IDs included. In
  every case the array is unchanged and the result is again a valid instance.
\<close>

theorem set_sample_ids_atomic:
  assumes "dm_invariant self"
  shows "(\<not> distinct ids \<longrightarrow>
            set_sample_ids self ids = (Some (DistanceMatrixError msg_unique), self))
       \<and> (distinct ids \<and> length ids \<noteq> hd (shape (data self)) \<longrightarrow>
            set_sample_ids self ids = (Some (DistanceMatrixError msg_count), self))
       \<and> (distinct ids \<and> length ids = hd (shape (data self)) \<longrightarrow>
            set_sample_ids self ids
              = (None, \<lparr>data = data self, sample_ids = ids, sample_index = index_list ids\<rparr>))
       \<and> (distinct ids \<and> length ids = hd (shape (data self)) \<longrightarrow>
            (\<forall>i<length ids. sample_index (snd (set_sample_ids self ids)) (ids ! i) = Some i)
            \<and> (\<forall>s. s \<notin> set ids \<longrightarrow> sample_index (snd (set_sample_ids self ids)) s = None))
       \<and> data (snd (set_sample_ids self ids)) = data self
       \<and> dm_invariant (snd (set_sample_ids self ids))"
proof -
  from assms have ok: "0 \<notin> set (shape (data self))" "is_valid_dm (data self)"
    by (auto simp: dm_invariant_def validate_cases split: if_splits)
  have v: "validate (data self) ids =
     (if \<not> distinct ids then Inl (DistanceMatrixError msg_unique)
      else if length ids \<noteq> hd (shape (data self)) then Inl (DistanceMatrixError msg_count)
      else Inr ())"
    using ok by (simp add: validate_cases)
  show ?thesis
    using assms
    by (simp add: set_sample_ids_def v dm_invariant_def index_list_nth index_list_notin)
qed

theorem set_sample_ids_atomic_witness:
  "set_sample_ids example_matrix [''a'', ''a'']
     = (Some (DistanceMatrixError msg_unique), example_matrix)
   \<and> set_sample_ids example_matrix [''a'', ''b'', ''c'']
     = (Some (DistanceMatrixError msg_count), example_matrix)
   \<and> set_sample_ids example_matrix [''x'', ''y'']
     = (None, \<lparr>data = data example_matrix, sample_ids = [''x'', ''y''],
               sample_index = index_list [''x'', ''y'']\<rparr>)
   \<and> sample_index (snd (set_sample_ids example_matrix [''x'', ''y''])) ''y'' = Some 1
   \<and> sample_index (snd (set_sample_ids example_matrix [''x'', ''y''])) ''a'' = None"
proof -
  have s: "hd (shape (data example_matrix)) = 2"
    by (simp add: example_matrix_def)
  have 1: "set_sample_ids example_matrix [''a'', ''a'']
     = (Some (DistanceMatrixError msg_unique), example_matrix)"
    by (rule set_sample_ids_atomic [OF example_matrix_invariant, THEN conjunct1, rule_format])
       simp
  have 2: "set_sample_ids example_matrix [''a'', ''b'', ''c'']
     = (Some (DistanceMatrixError msg_count), example_matrix)"
    by (rule set_sample_ids_atomic
          [OF example_matrix_invariant, THEN conjunct2, THEN conjunct1, rule_format])
       (simp add: s)
  have 3: "set_sample_ids example_matrix [''x'', ''y'']
     = (None, \<lparr>data = data example_matrix, sample_ids = [''x'', ''y''],
               sample_index = index_list [''x'', ''y'']\<rparr>)"
    by (rule set_sample_ids_atomic
          [OF example_matrix_invariant, THEN conjunct2, THEN conjunct2, THEN conjunct1,
           rule_format])
       (simp add: s)
  have i: "(\<forall>i<length [''x'', ''y''].
              sample_index (snd (set_sample_ids example_matrix [''x'', ''y''])) ([''x'', ''y''] ! i)
                = Some i)
         \<and> (\<forall>t. t \<notin> set [''x'', ''y''] \<longrightarrow>
              sample_index (snd (set_sample_ids example_matrix [''x'', ''y''])) t = None)"
    by (rule set_sample_ids_atomic
          [OF example_matrix_invariant, THEN conjunct2, THEN conjunct2, THEN conjunct2,
           THEN conjunct1, rule_format])
       (simp add: s)
  from i [THEN conjunct1, rule_format, of 1]
  have 4: "sample_index (snd (set_sample_ids example_matrix [''x'', ''y''])) ''y'' = Some 1"
    by simp
  from i [THEN conjunct2, rule_format, of "''a''"]
  have 5: "sample_index (snd (set_sample_ids example_matrix [''x'', ''y''])) ''a'' = None"
    by simp
  from 1 2 3 4 5 show ?thesis by blast
qed

text \<open>
  \<^verbatim>\<open>==\<close> can raise although \<open>other\<close> has all three attributes: let its
  \<^verbatim>\<open>sample_ids\<close> be an \<^verbatim>\<open>ndarray\<close> of the two IDs. The shapes agree, the test
  \<^verbatim>\<open>self.sample_ids != other.sample_ids\<close> raises \<^verbatim>\<open>ValueError\<close>, and the handler, which
  catches \<^verbatim>\<open>AttributeError\<close> only, lets it pass.
\<close>

theorem dm_eq_counterexample:
  "dm_eq example_matrix
     \<lparr>get_shape = Inr (Native [2, 2]), get_sample_ids = Inr (Foreign (Inl ValueError)),
      get_data = Inr (Native (data example_matrix))\<rparr> = Inl ValueError"
  by (simp add: dm_eq_def ne_test_def except_AttributeError_def example_matrix_def)

lemma dm_eq_True:
  "dm_eq self other = Inr True \<longleftrightarrow>
     (\<exists>s ids d. get_shape other = Inr s \<and> ne_test (shape (data self)) s = Inr False
        \<and> get_sample_ids other = Inr ids \<and> ne_test (sample_ids self) ids = Inr False
        \<and> get_data other = Inr d \<and> array_equal_test (data self) d = Inr True)"
  by (auto simp: dm_eq_def except_AttributeError_def split: sum.splits if_splits)

lemma dm_eq_tame:
  assumes "tame (get_shape other)" and "tame (get_sample_ids other)" and "tame (get_data other)"
  shows "\<exists>b. dm_eq self other = Inr b"
  using assms
  by (auto simp: dm_eq_def except_AttributeError_def only_AttributeError_def tame_def
      ne_test_def array_equal_test_def split: sum.splits pyvalue.splits)

text \<open>
  C4, amended. Let neither the reads of \<^verbatim>\<open>shape\<close>, \<^verbatim>\<open>sample_ids\<close> and \<^verbatim>\<open>data\<close> on
  \<open>other\<close> nor the comparisons made on their values raise anything but
  \<^verbatim>\<open>AttributeError\<close>. Then \<^verbatim>\<open>self == other\<close> returns a boolean and does not raise, and
  it returns False when \<open>other\<close> lacks one of the three attributes. When the three
  attributes of \<open>other\<close> hold a shape tuple, a tuple of IDs and an array, the result is
  True iff the shapes are the same, the IDs are the same in the same order, and
  \<^verbatim>\<open>np.array_equal\<close> finds the arrays equal. In general the result is True iff all
  three reads succeed, both \<^verbatim>\<open>!=\<close> tests are false and the array test is true.
\<close>

theorem dm_eq_characterisation:
  assumes "tame (get_shape other)" and "tame (get_sample_ids other)" and "tame (get_data other)"
  shows "(\<exists>b. dm_eq self other = Inr b)
       \<and> (get_shape other = Inl AttributeError \<or> get_sample_ids other = Inl AttributeError
            \<or> get_data other = Inl AttributeError \<longrightarrow> dm_eq self other = Inr False)
       \<and> (get_shape other = Inr (Native s) \<and> get_sample_ids other = Inr (Native ids)
            \<and> get_data other = Inr (Native d) \<longrightarrow>
            dm_eq self other
              = Inr (shape (data self) = s \<and> sample_ids self = ids \<and> array_equal (data self) d))
       \<and> (dm_eq self other = Inr True \<longleftrightarrow>
            (\<exists>s ids d. get_shape other = Inr s \<and> ne_test (shape (data self)) s = Inr False
               \<and> get_sample_ids other = Inr ids \<and> ne_test (sample_ids self) ids = Inr False
               \<and> get_data other = Inr d \<and> array_equal_test (data self) d = Inr True))"
proof (intro conjI impI)
  show "\<exists>b. dm_eq self other = Inr b"
    using assms by (rule dm_eq_tame)
next
  assume lacks: "get_shape other = Inl AttributeError \<or> get_sample_ids other = Inl AttributeError
            \<or> get_data other = Inl AttributeError"
  from dm_eq_tame [OF assms, of self] obtain b where b: "dm_eq self other = Inr b"
    by blast
  have "\<not> b"
  proof
    assume b
    with b have "dm_eq self other = Inr True" by simp
    with lacks show False
      unfolding dm_eq_True by auto
  qed
  with b show "dm_eq self other = Inr False" by simp
next
  assume "get_shape other = Inr (Native s) \<and> get_sample_ids other = Inr (Native ids)
            \<and> get_data other = Inr (Native d)"
  then show "dm_eq self other
              = Inr (shape (data self) = s \<and> sample_ids self = ids \<and> array_equal (data self) d)"
    by (simp add: dm_eq_def ne_test_def array_equal_test_def)
next
  show "dm_eq self other = Inr True \<longleftrightarrow>
            (\<exists>s ids d. get_shape other = Inr s \<and> ne_test (shape (data self)) s = Inr False
               \<and> get_sample_ids other = Inr ids \<and> ne_test (sample_ids self) ids = Inr False
               \<and> get_data other = Inr d \<and> array_equal_test (data self) d = Inr True)"
    by (rule dm_eq_True)
qed

theorem dm_eq_characterisation_witness:
  "dm_eq example_matrix (as_object example_matrix) = Inr True
   \<and> dm_eq example_matrix
       \<lparr>get_shape = Inr (Native [2, 2]), get_sample_ids = Inl AttributeError,
        get_data = Inr (Native (data example_matrix))\<rparr> = Inr False
   \<and> dm_eq example_matrix
       \<lparr>get_shape = Inr (Native [2, 2]), get_sample_ids = Inr (Native [''b'', ''a'']),
        get_data = Inr (Native (data example_matrix))\<rparr> = Inr False"
proof -
  have a: "array_equal (data example_matrix) (data example_matrix)"
    by (simp add: array_equal_def example_matrix_def feq_def)
  have t: "tame (get_shape (as_object example_matrix))"
    "tame (get_sample_ids (as_object example_matrix))"
    "tame (get_data (as_object example_matrix))"
    by (simp_all add: as_object_def tame_def)
  have 1: "dm_eq example_matrix (as_object example_matrix) = Inr True"
    using dm_eq_characterisation [OF t, THEN conjunct2, THEN conjunct2, THEN conjunct1,
        of "shape (data example_matrix)" "sample_ids example_matrix" "data example_matrix"
           example_matrix] a
    by (simp add: as_object_def)
  let ?lacking = "\<lparr>get_shape = Inr (Native [2, 2]), get_sample_ids = Inl AttributeError,
        get_data = Inr (Native (data example_matrix))\<rparr>"
  have tl: "tame (get_shape ?lacking)" "tame (get_sample_ids ?lacking)" "tame (get_data ?lacking)"
    by (simp_all add: tame_def)
  have 2: "dm_eq example_matrix ?lacking = Inr False"
    using dm_eq_characterisation [OF tl, THEN conjunct2, THEN conjunct1, of example_matrix]
    by simp
  let ?swapped = "\<lparr>get_shape = Inr (Native [2, 2]), get_sample_ids = Inr (Native [''b'', ''a'']),
        get_data = Inr (Native (data example_matrix))\<rparr>"
  have ts: "tame (get_shape ?swapped)" "tame (get_sample_ids ?swapped)" "tame (get_data ?swapped)"
    by (simp_all add: tame_def)
  have 3: "dm_eq example_matrix ?swapped = Inr False"
    using dm_eq_characterisation [OF ts, THEN conjunct2, THEN conjunct2, THEN conjunct1,
        of "[2, 2]" "[''b'', ''a'']" "data example_matrix" example_matrix]
    by (simp add: example_matrix_def)
  from 1 2 3 show ?thesis by blast
qed

section \<open>What construction says of the entries\<close>

lemma list_all_upt: "list_all P [0..<n] = (\<forall>i<n. P i)"
  by (auto simp: list_all_iff)

lemma feq_NaN: "\<not> feq NaN y" "\<not> feq x NaN"
  by (simp_all add: feq_def)

text \<open>A single row of zeros broadcasts against its transpose and passes.\<close>

lemma is_valid_dm_row_of_zeros:
  "is_valid_dm \<lparr>shape = [1, 3], flat = [Finite 0, Finite 0, Finite 0]\<rparr>"
  by (simp add: is_valid_dm_def eq_transpose_all_def diagonal_zero_def item2_def feq_def upt_rec)

lemma is_valid_dm_no_NaN:
  assumes valid: "is_valid_dm d" and wf: "wf_ndarray d"
  shows "NaN \<notin> set (flat d)"
proof
  assume "NaN \<in> set (flat d)"
  then obtain p where p: "p < length (flat d)" "flat d ! p = NaN"
    by (auto simp: in_set_conv_nth)
  from valid obtain r c where s: "shape d = [r, c]"
    using is_valid_dm_shape by blast
  with wf p have plt: "p < r * c"
    by (simp add: wf_ndarray_def)
  then have c: "0 < c"
    by (cases c) simp_all
  from plt have i: "p div c < r"
    by (simp add: less_mult_imp_div_less)
  from c have j: "p mod c < c"
    by simp
  have item: "item2 d (p div c) (p mod c) = NaN"
    using p s by (simp add: item2_def)
  from valid s have t: "eq_transpose_all d r c" and z: "diagonal_zero d r c"
    by (simp_all add: is_valid_dm_def)
  show False
  proof (cases "r = c")
    case True
    with t i j have "feq (item2 d (p div c) (p mod c)) (item2 d (p mod c) (p div c))"
      by (simp add: eq_transpose_all_def list_all_upt)
    with item show False by (simp add: feq_NaN)
  next
    case False
    show False
    proof (cases "r = 1")
      case True
      with i have "p div c = 0" by simp
      moreover from t False True j
      have "feq (item2 d 0 (p mod c)) (item2 d 0 (p mod c))"
        by (simp add: eq_transpose_all_def list_all_upt)
      ultimately show False using item by (simp add: feq_NaN)
    next
      case r1: False
      from t False r1 have "c = 1"
        by (simp add: eq_transpose_all_def split: if_splits)
      with z have "r \<le> 1" by (simp add: diagonal_zero_def)
      with r1 i show False by simp
    qed
  qed
qed

lemma init_data: "init d ids = Inr m \<Longrightarrow> data m = d \<and> is_valid_dm d"
  by (auto simp: init_cases split: if_splits)

text \<open>
  An infinite distance passes every check: \<^verbatim>\<open>inf == inf\<close> holds, so
  \<^verbatim>\<open>[[0, inf], [inf, 0]]\<close> is symmetric and hollow, and the constructor returns an instance
  holding entries that are not finite.
\<close>

theorem init_accepts_infinity:
  "init \<lparr>shape = [2, 2], flat = [Finite 0, PosInf, PosInf, Finite 0]\<rparr> [''a'', ''b'']
     = Inr \<lparr>data = \<lparr>shape = [2, 2], flat = [Finite 0, PosInf, PosInf, Finite 0]\<rparr>,
            sample_ids = [''a'', ''b''], sample_index = index_list [''a'', ''b'']\<rparr>
   \<and> \<not> list_all isfinite [Finite 0, PosInf, PosInf, Finite 0]"
proof -
  have "is_valid_dm \<lparr>shape = [2, 2], flat = [Finite 0, PosInf, PosInf, Finite 0]\<rparr>"
    by (simp add: is_valid_dm_def eq_transpose_all_def diagonal_zero_def item2_def feq_def upt_rec)
  then show ?thesis
    by (simp add: init_cases isfinite_def)
qed

text \<open>
  C3, amended. Construction fails with \<^verbatim>\<open>DistanceMatrixError\<close> whenever an entry of the
  array is NaN (a NaN differs from itself, which the symmetry test of \<^verbatim>\<open>is_valid_dm\<close>
  notices); so no constructed instance holds a NaN. Nothing is said of infinite
  entries. No later operation changes the array: the setter of the IDs keeps it,
  \<^verbatim>\<open>copy\<close> builds its instance from the same entries, \<^verbatim>\<open>transpose\<close> returns the
  instance itself and \<^verbatim>\<open>redundant_form\<close> the array itself.
\<close>

theorem init_rejects_NaN:
  "(wf_ndarray d \<and> NaN \<in> set (flat d) \<longrightarrow> (\<exists>msg. init d ids = Inl (DistanceMatrixError msg)))
   \<and> (wf_ndarray d \<and> init d ids = Inr m \<longrightarrow> NaN \<notin> set (flat (data m)))
   \<and> data (snd (set_sample_ids m ids')) = data m
   \<and> (copy m = Inr m' \<longrightarrow> data m' = data m)
   \<and> transpose_dm m = m
   \<and> redundant_form m = data m"
proof (intro conjI impI)
  assume a: "wf_ndarray d \<and> NaN \<in> set (flat d)"
  then have "\<not> is_valid_dm d"
    using is_valid_dm_no_NaN by blast
  then show "\<exists>msg. init d ids = Inl (DistanceMatrixError msg)"
    by (simp add: init_cases)
next
  assume "wf_ndarray d \<and> init d ids = Inr m"
  then show "NaN \<notin> set (flat (data m))"
    using init_data [of d ids m] is_valid_dm_no_NaN [of d] by simp
next
  show "data (snd (set_sample_ids m ids')) = data m"
    by (simp add: set_sample_ids_def split: sum.splits)
next
  assume "copy m = Inr m'"
  then show "data m' = data m"
    using init_data [of "data m" "sample_ids m" m'] by (simp add: copy_def)
qed (simp_all add: transpose_dm_def redundant_form_def)

lemma example_matrix_init:
  "init \<lparr>shape = [2, 2], flat = [Finite 0, Finite 1, Finite 1, Finite 0]\<rparr> [''a'', ''b'']
     = Inr example_matrix"
  using two_by_two_valid by (simp add: init_cases example_matrix_def)

theorem init_rejects_NaN_witness:
  "(\<exists>msg. init \<lparr>shape = [2, 2], flat = [Finite 0, NaN, NaN, Finite 0]\<rparr> [''a'', ''b'']
            = Inl (DistanceMatrixError msg))
   \<and> NaN \<notin> set (flat (data example_matrix))
   \<and> data (snd (set_sample_ids example_matrix [''x'', ''y''])) = data example_matrix"
proof -
  have 1: "\<exists>msg. init \<lparr>shape = [2, 2], flat = [Finite 0, NaN, NaN, Finite 0]\<rparr> [''a'', ''b'']
            = Inl (DistanceMatrixError msg)"
    by (rule init_rejects_NaN [THEN conjunct1, rule_format]) (simp add: wf_ndarray_def)
  have 2: "NaN \<notin> set (flat (data example_matrix))"
    by (rule init_rejects_NaN [THEN conjunct2, THEN conjunct1, rule_format,
          of "\<lparr>shape = [2, 2], flat = [Finite 0, Finite 1, Finite 1, Finite 0]\<rparr>"
             "[''a'', ''b'']"])
       (simp add: wf_ndarray_def example_matrix_init)
  have 3: "data (snd (set_sample_ids example_matrix [''x'', ''y''])) = data example_matrix"
    by (rule init_rejects_NaN [THEN conjunct2, THEN conjunct2, THEN conjunct1])
  from 1 2 3 show ?thesis by blast
qed

section \<open>Properties of the random generator\<close>

lemma digit_char_inj: "a < 10 \<Longrightarrow> b < 10 \<Longrightarrow> digit_char a = digit_char b \<Longrightarrow> a = b"
proof -
  assume a: "a < 10" and b: "b < 10" and e: "digit_char a = digit_char b"
  from e have "(of_char (char_of (48 + a)) :: nat) = of_char (char_of (48 + b))"
    by (simp add: digit_char_def)
  then have "(48 + a) mod 256 = (48 + b) mod 256"
    by simp
  with a b show "a = b" by simp
qed

lemma str_nat_nonempty: "str_nat n \<noteq> []"
  by (subst str_nat.simps) simp

lemma str_nat_inj: "str_nat n = str_nat m \<Longrightarrow> n = m"
proof (induction n arbitrary: m rule: str_nat.induct)
  case (1 n)
  show ?case
  proof (cases "n < 10")
    case n: True
    show ?thesis
    proof (cases "m < 10")
      case True
      with n "1.prems" show ?thesis
        by (simp add: str_nat.simps [of n] str_nat.simps [of m] digit_char_inj)
    next
      case False
      with n "1.prems" str_nat_nonempty [of "m div 10"] show ?thesis
        by (simp add: str_nat.simps [of n] str_nat.simps [of m])
    qed
  next
    case n: False
    show ?thesis
    proof (cases "m < 10")
      case True
      with n "1.prems" str_nat_nonempty [of "n div 10"] show ?thesis
        by (simp add: str_nat.simps [of n] str_nat.simps [of m])
    next
      case False
      with n "1.prems" have e: "str_nat (n div 10) = str_nat (m div 10)"
        and d: "digit_char (n mod 10) = digit_char (m mod 10)"
        by (simp_all add: str_nat.simps [of n] str_nat.simps [of m])
      from "1.IH" [OF n e] have "n div 10 = m div 10" .
      moreover from d have "n mod 10 = m mod 10"
        by (rule digit_char_inj [rotated 2]) simp_all
      ultimately show ?thesis
        by (metis div_mult_mod_eq)
    qed
  qed
qed

lemma default_sample_ids_distinct: "distinct (default_sample_ids n)"
  by (simp add: default_sample_ids_def distinct_map inj_on_def str_nat_inj)

lemma length_concat_rows:
  "length (concat (map (\<lambda>i. map (f i) [0..<n]) [0..<m])) = m * n"
  by (induction m) simp_all

lemma concat_rows_nth:
  "i < m \<Longrightarrow> j < n \<Longrightarrow> concat (map (\<lambda>i. map (f i) [0..<n]) [0..<m]) ! (i * n + j) = f i j"
proof (induction m)
  case 0
  then show ?case by simp
next
  case (Suc m)
  show ?case
  proof (cases "i < m")
    case True
    from Suc.prems have "i * n + j < Suc i * n"
      by simp
    also from True have "Suc i * n \<le> m * n"
      by (intro mult_le_mono1) simp
    finally have "i * n + j < m * n" .
    with True Suc show ?thesis
      by (simp add: nth_append length_concat_rows)
  next
    case False
    with Suc.prems have "i = m" by simp
    with Suc.prems show ?thesis
      by (simp add: nth_append length_concat_rows)
  qed
qed

lemma random_data_item:
  "i < n \<Longrightarrow> j < n \<Longrightarrow> item2 (random_data rnd n) i j = Finite (tril rnd i j + tril rnd j i)"
  by (simp add: item2_def random_data_def concat_rows_nth)

lemma random_data_valid: "is_valid_dm (random_data rnd n)"
proof -
  have s: "shape (random_data rnd n) = [n, n]"
    by (simp add: random_data_def)
  have "eq_transpose_all (random_data rnd n) n n"
    by (simp add: eq_transpose_all_def list_all_upt random_data_item feq_def add.commute)
  moreover have "diagonal_zero (random_data rnd n) n n"
    by (simp add: diagonal_zero_def list_all_upt random_data_item feq_def tril_def)
  ultimately show ?thesis
    by (simp add: is_valid_dm_def s)
qed

text \<open>
  C10. For \<open>n \<ge> 1\<close>, \<^verbatim>\<open>random_distance_matrix\<close> called with IDs that are falsy
  (\<^verbatim>\<open>None\<close>, or an empty sequence) does what it does without IDs: it uses the default
  IDs \<^verbatim>\<open>"1"\<close>, ..., \<^verbatim>\<open>str(n)\<close>, and it returns an instance; in particular it does not
  raise the count-mismatch error.
\<close>

theorem random_distance_matrix_falsy_ids:
  assumes "1 \<le> n" and "falsy ids"
  shows "random_distance_matrix rnd n ids = random_distance_matrix rnd n None
       \<and> random_distance_matrix rnd n ids
           = Inr \<lparr>data = random_data rnd n, sample_ids = map str_nat [1..<n + 1],
                  sample_index = index_list (map str_nat [1..<n + 1])\<rparr>
       \<and> random_distance_matrix rnd n ids \<noteq> Inl (DistanceMatrixError msg_count)"
proof -
  have "init (random_data rnd n) (default_sample_ids n)
          = Inr \<lparr>data = random_data rnd n, sample_ids = default_sample_ids n,
                 sample_index = index_list (default_sample_ids n)\<rparr>"
    using assms(1) random_data_valid [of rnd n] default_sample_ids_distinct [of n]
    by (simp add: init_cases) (simp add: random_data_def default_sample_ids_def)
  with assms(2) show ?thesis
    by (simp add: random_distance_matrix_def falsy_def default_sample_ids_def)
qed

lemma default_sample_ids_2: "map str_nat [1..<2 + 1] = [''1'', ''2'']"
proof -
  have "char_of (49::nat) = CHR ''1''" "char_of (50::nat) = CHR ''2''"
    by code_simp+
  then show ?thesis
    by (simp add: upt_rec str_nat.simps digit_char_def)
qed

lemma random_data_2:
  "random_data (\<lambda>i j. 1 / 2) 2
     = \<lparr>shape = [2, 2], flat = [Finite 0, Finite (1 / 2), Finite (1 / 2), Finite 0]\<rparr>"
  by (simp add: random_data_def tril_def upt_rec)

theorem random_distance_matrix_falsy_ids_witness:
  "random_distance_matrix (\<lambda>i j. 1 / 2) 2 (Some [])
     = Inr \<lparr>data = \<lparr>shape = [2, 2],
                     flat = [Finite 0, Finite (1 / 2), Finite (1 / 2), Finite 0]\<rparr>,
            sample_ids = [''1'', ''2''], sample_index = index_list [''1'', ''2'']\<rparr>
   \<and> random_distance_matrix (\<lambda>i j. 1 / 2) 2 (Some [])
       = random_distance_matrix (\<lambda>i j. 1 / 2) 2 None"
proof -
  have f: "falsy (Some [])"
    by (simp add: falsy_def)
  have n: "(1::nat) \<le> 2"
    by simp
  note r = random_distance_matrix_falsy_ids
    [OF n f, of "\<lambda>i j. 1 / 2", unfolded default_sample_ids_2 random_data_2]
  show ?thesis
  proof (intro conjI)
    show "random_distance_matrix (\<lambda>i j. 1 / 2) 2 (Some [])
     = Inr \<lparr>data = \<lparr>shape = [2, 2],
                     flat = [Finite 0, Finite (1 / 2), Finite (1 / 2), Finite 0]\<rparr>,
            sample_ids = [''1'', ''2''], sample_index = index_list [''1'', ''2'']\<rparr>"
      by (rule r [THEN conjunct2, THEN conjunct1])
    show "random_distance_matrix (\<lambda>i j. 1 / 2) 2 (Some [])
       = random_distance_matrix (\<lambda>i j. 1 / 2) 2 None"
      by (rule r [THEN conjunct1])
  qed
qed

section \<open>Writing and reading back\<close>

lemma contains_hd: "contains sep t \<Longrightarrow> sep \<noteq> [] \<Longrightarrow> hd sep \<in> set t"
proof (induction t)
  case Nil
  then show ?case by simp
next
  case (Cons c cs)
  show ?case
  proof (cases "take (length sep) (c # cs) = sep")
    case True
    with Cons.prems(2) have "hd sep = c"
      by (cases sep) auto
    then show ?thesis by simp
  next
    case False
    with Cons show ?thesis by simp
  qed
qed

lemma split_from_token:
  "sep \<noteq> [] \<Longrightarrow> \<not> contains sep t \<Longrightarrow> split_from sep tok t = [tok @ t]"
  by (induction t arbitrary: tok) simp_all

lemma split_from_sep:
  assumes "sep \<noteq> []"
  shows "split_from sep tok (sep @ rest) = tok # split_from sep [] rest"
proof -
  from assms obtain c cs where sep: "sep = c # cs"
    by (cases sep) auto
  have "split_from sep tok (c # (cs @ rest)) = tok # split_from sep [] (drop (length sep) (c # (cs @ rest)))"
    using assms sep by (subst split_from.simps) simp
  then show ?thesis
    by (simp add: sep)
qed

text \<open>
  A separator made of whitespace cannot begin inside a token that ends in a character
  that is no whitespace and does not contain the separator: a match would lie inside
  the token, or would cover its last character.
\<close>

lemma no_separator_in_token:
  assumes "list_all isspace sep" and "\<not> contains sep (x # t)" and "\<not> isspace (last (x # t))"
  shows "take (length sep) ((x # t) @ rest) \<noteq> sep"
proof
  assume e: "take (length sep) ((x # t) @ rest) = sep"
  show False
  proof (cases "length sep \<le> length (x # t)")
    case True
    then have "take (length sep) ((x # t) @ rest) = take (length sep) (x # t)"
      by (simp only: take_append) simp
    with e have "take (length sep) (x # t) = sep"
      by simp
    with assms(2) show False by simp
  next
    case False
    then have "take (length (x # t)) sep = take (length (x # t)) (take (length sep) ((x # t) @ rest))"
      using e by simp
    also have "\<dots> = x # t"
      using False by (simp add: min_def)
    finally have "set (x # t) \<subseteq> set sep"
      by (metis set_take_subset)
    then have "last (x # t) \<in> set sep"
      using last_in_set [of "x # t"] by blast
    with assms(1,3) show False
      by (simp add: list_all_iff)
  qed
qed

lemma split_from_token_sep:
  "sep \<noteq> [] \<Longrightarrow> list_all isspace sep \<Longrightarrow> \<not> contains sep t \<Longrightarrow>
   (t \<noteq> [] \<longrightarrow> \<not> isspace (last t)) \<Longrightarrow>
   split_from sep tok (t @ sep @ rest) = (tok @ t) # split_from sep [] rest"
proof (induction t arbitrary: tok)
  case Nil
  then show ?case by (simp add: split_from_sep)
next
  case (Cons x t)
  from Cons.prems have "take (length sep) ((x # t) @ sep @ rest) \<noteq> sep"
    by (intro no_separator_in_token) simp_all
  moreover from Cons.prems have "\<not> contains sep t" "t \<noteq> [] \<longrightarrow> \<not> isspace (last t)"
    by auto
  ultimately show ?case
    using Cons.IH [of "tok @ [x]"] Cons.prems(1,2) by simp
qed

lemma split_from_join:
  "sep \<noteq> [] \<Longrightarrow> list_all isspace sep \<Longrightarrow>
   list_all (\<lambda>t. \<not> contains sep t \<and> (t \<noteq> [] \<longrightarrow> \<not> isspace (last t))) ts \<Longrightarrow> ts \<noteq> [] \<Longrightarrow>
   split_from sep tok (join sep ts) = (tok @ hd ts) # tl ts"
proof (induction sep ts arbitrary: tok rule: join.induct)
  case (1 sep)
  then show ?case by simp
next
  case (2 sep x)
  then show ?case by (simp add: split_from_token)
next
  case (3 sep x y ys)
  then show ?case by (simp add: split_from_token_sep)
qed

lemma strip_padded:
  assumes "list_all isspace a" and "list_all isspace b"
    and "s \<noteq> []" and "\<not> isspace (hd s)" and "\<not> isspace (last s)"
  shows "strip (a @ s @ b) = s"
proof -
  from assms(1,3,4) have 1: "dropWhile isspace (a @ s @ b) = s @ b"
    by (cases s) (auto simp: dropWhile_append3 list_all_iff dropWhile_append)
  from assms(3) obtain s' where s: "s = s' @ [last s]"
    by (metis append_butlast_last_id)
  have "dropWhile isspace (rev (s @ b)) = rev s"
  proof -
    have "rev (s @ b) = rev b @ last s # rev s'"
      by (subst s) simp
    moreover have "dropWhile isspace (rev b @ last s # rev s') = last s # rev s'"
      using assms(2,5) by (simp add: dropWhile_append list_all_iff)
    moreover have "last s # rev s' = rev s"
      by (subst (2) s) simp
    ultimately show ?thesis by simp
  qed
  with 1 show ?thesis
    by (simp add: strip_def)
qed

lemma join_Cons: "ts \<noteq> [] \<Longrightarrow> join sep (x # ts) = x @ sep @ join sep ts"
  by (cases ts) simp_all

lemma set_join: "set (join sep ts) \<subseteq> set sep \<union> \<Union> (set ` set ts)"
  by (induction sep ts rule: join.induct) auto

lemma join_hd: "ts \<noteq> [] \<Longrightarrow> hd ts \<noteq> [] \<Longrightarrow> join sep ts \<noteq> [] \<and> hd (join sep ts) = hd (hd ts)"
  by (induction sep ts rule: join.induct) auto

lemma join_nonempty: "ts \<noteq> [] \<Longrightarrow> last ts \<noteq> [] \<Longrightarrow> join sep ts \<noteq> []"
  by (induction sep ts rule: join.induct) simp_all

lemma join_last: "ts \<noteq> [] \<Longrightarrow> last ts \<noteq> [] \<Longrightarrow> last (join sep ts) = last (last ts)"
proof (induction sep ts rule: join.induct)
  case (3 sep x y ys)
  then have "join sep (y # ys) \<noteq> []"
    using join_nonempty [of "y # ys" sep] by simp
  with 3 show ?case by simp
qed simp_all

lemma plain_field_facts:
  assumes "plain_field s"
  shows "s \<noteq> []" and "\<not> isspace (hd s)" and "\<not> isspace (last s)"
    and "CHR 0x0A \<notin> set s" and "list_all isspace sep \<Longrightarrow> sep \<noteq> [] \<Longrightarrow> hd sep \<notin> set s"
proof -
  from assms show ne: "s \<noteq> []" and sp: "\<not> isspace (hd s)" "\<not> isspace (last s)"
    by (auto simp: plain_field_def list_all_iff)
  from assms show "CHR 0x0A \<notin> set s"
    by (auto simp: plain_field_def list_all_iff isspace_def)
  assume "list_all isspace sep" "sep \<noteq> []"
  then have "isspace (hd sep)"
    by (cases sep) simp_all
  with assms show "hd sep \<notin> set s"
    by (auto simp: plain_field_def list_all_iff)
qed

lemma plain_field_id:
  assumes "plain_field s" and "list_all isspace sep" and "sep \<noteq> []"
  shows "plain_id sep s"
  using plain_field_facts [OF assms(1)] contains_hd [of sep s] assms(2,3)
  by (auto simp: plain_id_def)

lemma lines_from_line:
  "CHR 0x0A \<notin> set s \<Longrightarrow>
   lines_from cur (s @ CHR 0x0A # rest) = (cur @ s @ [CHR 0x0A]) # lines_from [] rest"
  by (induction s arbitrary: cur) auto

lemma asarray_float_map:
  "list_all (\<lambda>x. to_float (to_str x) = Some x) vals \<Longrightarrow>
   asarray_float to_float (map to_str vals) = Some vals"
  by (induction vals) simp_all

lemma concat_iter_rows:
  "concat (map (\<lambda>i. take n (drop (i * n) xs)) [0..<m]) = take (m * n) xs"
proof (induction m)
  case 0
  show ?case by simp
next
  case (Suc m)
  have "take (Suc m * n) xs = take (m * n + n) xs"
    by (simp add: add.commute)
  also have "\<dots> = take (m * n) xs @ take n (drop (m * n) xs)"
    by (rule take_add)
  finally show ?case
    using Suc by simp
qed

lemma written_row_content:
  "vals \<noteq> [] \<Longrightarrow>
   write_row to_str delimiter (sid, vals) = join delimiter (sid # map to_str vals) @ [CHR 0x0A]"
  by (simp add: write_row_def join_Cons)

lemma written_row_ids:
  assumes "delimiter \<noteq> []" and "list_all isspace delimiter"
    and "plain_id delimiter sid" and "list_all (float_text_ok to_str to_float) vals"
  shows "list_all (plain_id delimiter) (sid # map to_str vals)"
  using assms by (auto simp: list_all_iff float_text_ok_def intro: plain_field_id)

lemma written_row_fields:
  assumes "delimiter \<noteq> []" and "list_all isspace delimiter"
    and "plain_id delimiter sid" and "vals \<noteq> []"
    and "list_all (float_text_ok to_str to_float) vals"
  shows "strip (write_row to_str delimiter (sid, vals)) = join delimiter (sid # map to_str vals)"
    and "split_from delimiter [] (join delimiter (sid # map to_str vals)) = sid # map to_str vals"
    and "join delimiter (sid # map to_str vals) \<noteq> []"
proof -
  let ?ts = "sid # map to_str vals"
  note ids = written_row_ids [OF assms(1,2,3,5)]
  then have l: "plain_id delimiter (last ?ts)"
    by (metis last_in_set list.distinct(1) list_all_iff)
  have h: "join delimiter ?ts \<noteq> [] \<and> hd (join delimiter ?ts) = hd sid"
    using join_hd [of ?ts delimiter] assms(3) by (simp add: plain_id_def)
  then show "join delimiter ?ts \<noteq> []" by simp
  have la: "last (join delimiter ?ts) = last (last ?ts)"
    using join_last [of ?ts delimiter] l by (simp add: plain_id_def)
  have "strip ([] @ join delimiter ?ts @ [CHR 0x0A]) = join delimiter ?ts"
    using h la assms(3) l
    by (intro strip_padded) (simp_all add: isspace_def plain_id_def)
  then show "strip (write_row to_str delimiter (sid, vals)) = join delimiter ?ts"
    by (simp add: written_row_content [OF assms(4)])
  have "list_all (\<lambda>t. \<not> contains delimiter t \<and> (t \<noteq> [] \<longrightarrow> \<not> isspace (last t))) ?ts"
    using ids by (auto simp: list_all_iff plain_id_def)
  then show "split_from delimiter [] (join delimiter ?ts) = ?ts"
    using split_from_join [of delimiter ?ts "[]"] assms(1,2) by simp
qed

lemma read_rows_written:
  assumes d: "delimiter \<noteq> []" "list_all isspace delimiter"
    and sids: "list_all (plain_id delimiter) sids"
  shows "k + length rs = length sids \<Longrightarrow>
    list_all (\<lambda>vals. length vals = length sids \<and> list_all (float_text_ok to_str to_float) vals) rs \<Longrightarrow>
    read_rows to_float delimiter sids acc k
      (map (write_row to_str delimiter) (zip (drop k sids) rs)) = Inr (acc @ rs, length sids)"
proof (induction rs arbitrary: k acc)
  case Nil
  then show ?case by simp
next
  case (Cons r rs)
  from Cons.prems have k: "k < length sids"
    by simp
  then have dr: "drop k sids = sids ! k # drop (Suc k) sids"
    by (simp add: Cons_nth_drop_Suc)
  from k sids have sid: "plain_id delimiter (sids ! k)"
    by (simp add: list_all_length)
  from Cons.prems k have r: "length r = length sids" "r \<noteq> []"
    "list_all (float_text_ok to_str to_float) r"
    by auto
  note f = written_row_fields [OF d sid r(2,3)]
  from r(3) have fl: "asarray_float to_float (map to_str r) = Some r"
    by (intro asarray_float_map) (simp add: list_all_iff float_text_ok_def)
  have step: "read_rows to_float delimiter sids acc k
      (write_row to_str delimiter (sids ! k, r) # map (write_row to_str delimiter) (zip (drop (Suc k) sids) rs))
    = read_rows to_float delimiter sids (acc @ [r]) (k + 1)
        (map (write_row to_str delimiter) (zip (drop (Suc k) sids) rs))"
    using k d(1) r(1) fl by (simp add: f py_split_def Let_def)
  from Cons.prems have "Suc k + length rs = length sids"
    and "list_all (\<lambda>vals. length vals = length sids
            \<and> list_all (float_text_ok to_str to_float) vals) rs"
    by simp_all
  from Cons.IH [OF this, of "acc @ [r]"] step show ?case
    by (simp add: dr)
qed

lemma join_no_newline:
  assumes "CHR 0x0A \<notin> set delimiter" and "list_all (plain_id delimiter) ts"
  shows "CHR 0x0A \<notin> set (join delimiter ts)"
proof -
  have "CHR 0x0A \<notin> set t" if "t \<in> set ts" for t
    using that assms(2) by (auto simp: list_all_iff plain_id_def)
  with assms(1) set_join [of delimiter ts] show ?thesis
    by blast
qed

lemma lines_from_written_rows:
  assumes "delimiter \<noteq> []" and "list_all isspace delimiter" and "CHR 0x0A \<notin> set delimiter"
  shows "list_all (\<lambda>(sid, vals). plain_id delimiter sid \<and> vals \<noteq> []
            \<and> list_all (float_text_ok to_str to_float) vals) ps \<Longrightarrow>
    lines_from [] (concat (map (write_row to_str delimiter) ps))
      = map (write_row to_str delimiter) ps"
proof (induction ps)
  case Nil
  show ?case by simp
next
  case (Cons p ps)
  obtain sid vals where p: "p = (sid, vals)"
    by (cases p)
  from Cons.prems p have a: "plain_id delimiter sid" "vals \<noteq> []"
    "list_all (float_text_ok to_str to_float) vals"
    by simp_all
  from join_no_newline [OF assms(3) written_row_ids [OF assms(1,2) a(1,3)]]
  have "lines_from [] (join delimiter (sid # map to_str vals) @ CHR 0x0A # concat (map (write_row to_str delimiter) ps))
      = ([] @ join delimiter (sid # map to_str vals) @ [CHR 0x0A])
          # lines_from [] (concat (map (write_row to_str delimiter) ps))"
    by (rule lines_from_line)
  with Cons p a(2) show ?case
    by (simp add: written_row_content)
qed

lemma iter_rows_square:
  "shape d = [n, n] \<Longrightarrow> iter_rows d = map (\<lambda>i. take n (drop (i * n) (flat d))) [0..<n]"
  by (simp add: iter_rows_def)

lemma dm_invariant_rebuild:
  assumes "dm_invariant m"
  shows "init (data m) (sample_ids m) = Inr m"
proof -
  from assms have "init (data m) (sample_ids m)
      = Inr \<lparr>data = data m, sample_ids = sample_ids m, sample_index = sample_index m\<rparr>"
    by (simp add: dm_invariant_def init_def)
  then show ?thesis by simp
qed

lemma startswith_hash: "s \<noteq> [] \<Longrightarrow> startswith s ''#'' = (hd s = CHR ''#'')"
  by (cases s) (simp_all add: startswith_def)

lemma dm_eq_self:
  assumes "dm_invariant m" and "wf_ndarray (data m)"
  shows "dm_eq m (as_object m) = Inr True"
proof -
  from assms(1) have "is_valid_dm (data m)"
    by (auto simp: dm_invariant_def validate_cases split: if_splits)
  then have "NaN \<notin> set (flat (data m))"
    using assms(2) by (rule is_valid_dm_no_NaN)
  then have "list_all2 feq (flat (data m)) (flat (data m))"
    by (auto simp: list_all2_same feq_def)
  then show ?thesis
    by (simp add: dm_eq_def as_object_def array_equal_def ne_test_def array_equal_test_def)
qed

text \<open>
  C1, amended. Let \<open>m\<close> be an instance with a square, well-formed array; let the
  delimiter be a non-empty string of whitespace characters other than the newline (the
  default tab is one); let every sample ID be not empty, have no whitespace at either
  end, and contain neither the delimiter nor a newline, the first ID not starting with
  \<^verbatim>\<open>#\<close>; and let numpy write every entry as a plain field from which it reads the same
  float back. Then writing \<open>m\<close> with \<^verbatim>\<open>to_file\<close> and parsing the text with
  \<^verbatim>\<open>from_file\<close> and the same delimiter returns \<open>m\<close>, which \<^verbatim>\<open>==\<close> finds equal to
  \<open>m\<close>. This holds for every size \<open>N \<ge> 1\<close>.
\<close>

theorem to_file_from_file_round_trip:
  assumes inv: "dm_invariant m"
    and square: "shape (data m) = [length (sample_ids m), length (sample_ids m)]"
    and wf: "wf_ndarray (data m)"
    and d: "delimiter \<noteq> []" "list_all isspace delimiter" "CHR 0x0A \<notin> set delimiter"
    and ids: "list_all (plain_id delimiter) (sample_ids m)"
      "\<not> startswith (hd (sample_ids m)) ''#''"
    and floats: "list_all (float_text_ok to_str to_float) (flat (data m))"
  shows "from_file to_float delimiter (file_lines (to_file to_str delimiter m)) = Inr m
       \<and> dm_eq m (as_object m) = Inr True"
proof -
  let ?ids = "sample_ids m"
  let ?n = "length ?ids"
  let ?flat = "flat (data m)"
  let ?rows = "iter_rows (data m)"
  let ?written = "map (write_row to_str delimiter) (zip ?ids ?rows)"
  let ?header = "join delimiter ?ids"
  from inv square have n: "?n \<noteq> 0"
    by (auto simp: dm_invariant_def validate_cases split: if_splits)
  then have ne: "?ids \<noteq> []"
    by auto
  have rows: "?rows = map (\<lambda>i. take ?n (drop (i * ?n) ?flat)) [0..<?n]"
    using square by (rule iter_rows_square)
  from wf square have len: "length ?flat = ?n * ?n"
    by (simp add: wf_ndarray_def)
  have row_ok: "length r = ?n \<and> list_all (float_text_ok to_str to_float) r"
    if "r \<in> set ?rows" for r
  proof -
    from that rows obtain i where i: "i < ?n" and r: "r = take ?n (drop (i * ?n) ?flat)"
      by auto
    from i have "Suc i * ?n \<le> ?n * ?n"
      by (intro mult_le_mono1) simp
    with len have "length r = ?n"
      by (simp add: r)
    moreover from floats have "list_all (float_text_ok to_str to_float) r"
      unfolding r list_all_iff by (meson in_set_dropD in_set_takeD)
    ultimately show ?thesis by simp
  qed
  then have rows_ok: "list_all (\<lambda>vals. length vals = ?n
        \<and> list_all (float_text_ok to_str to_float) vals) ?rows"
    by (simp add: list_all_iff)
  have pairs_ok: "list_all (\<lambda>(sid, vals). plain_id delimiter sid \<and> vals \<noteq> []
        \<and> list_all (float_text_ok to_str to_float) vals) (zip ?ids ?rows)"
  proof -
    have "plain_id delimiter sid \<and> vals \<noteq> [] \<and> list_all (float_text_ok to_str to_float) vals"
      if "(sid, vals) \<in> set (zip ?ids ?rows)" for sid vals
    proof -
      from that have "sid \<in> set ?ids" and v: "vals \<in> set ?rows"
        by (auto dest: set_zip_leftD set_zip_rightD)
      with ids(1) have "plain_id delimiter sid"
        by (simp add: list_all_iff)
      moreover from row_ok [OF v] n have "vals \<noteq> []"
        by auto
      ultimately show ?thesis
        using row_ok [OF v] by simp
    qed
    then show ?thesis
      by (auto simp: list_all_iff)
  qed
  have first: "plain_id delimiter (hd ?ids)" and final: "plain_id delimiter (last ?ids)"
    using ids(1) ne by (simp_all add: list_all_iff)
  have hd_header: "?header \<noteq> [] \<and> hd ?header = hd (hd ?ids)"
    using join_hd [OF ne, of delimiter] first by (simp add: plain_id_def)
  have last_header: "last ?header = last (last ?ids)"
    using join_last [OF ne, of delimiter] final by (simp add: plain_id_def)
  have header_nl: "CHR 0x0A \<notin> set (delimiter @ ?header)"
    using join_no_newline [OF d(3) ids(1)] d(3) by simp
  have out: "to_file to_str delimiter m
      = (delimiter @ ?header) @ CHR 0x0A # concat ?written"
    using ne by (simp add: to_file_def format_sample_ids_def join_Cons)
  have lines: "file_lines (to_file to_str delimiter m)
      = (delimiter @ ?header @ [CHR 0x0A]) # ?written"
    unfolding file_lines_def out
    using lines_from_line [OF header_nl, of "[]" "concat ?written"]
      lines_from_written_rows [OF d pairs_ok]
    by simp
  have stripped: "strip (delimiter @ ?header @ [CHR 0x0A]) = ?header"
    using hd_header last_header first final d(2)
    by (intro strip_padded) (simp_all add: isspace_def plain_id_def)
  have no_comment: "\<not> startswith ?header ''#''"
    using ids(2) hd_header first by (simp add: startswith_hash plain_id_def)
  have "list_all (\<lambda>t. \<not> contains delimiter t \<and> (t \<noteq> [] \<longrightarrow> \<not> isspace (last t))) ?ids"
    using ids(1) by (auto simp: list_all_iff plain_id_def)
  then have fields: "split_from delimiter [] ?header = ?ids"
    using split_from_join [OF d(1,2) _ ne, of "[]"] ne by simp
  have header: "parse_sample_ids delimiter (file_lines (to_file to_str delimiter m))
      = Inr (?ids, ?written)"
    using hd_header no_comment d(1) by (simp add: lines stripped fields py_split_def)
  have "length ?rows = ?n"
    by (simp add: rows)
  then have read: "read_rows to_float delimiter ?ids [] 0 ?written = Inr (?rows, ?n)"
    using read_rows_written [OF d(1,2) ids(1), of 0 ?rows to_str to_float "[]"] rows_ok
    by simp
  have "concat ?rows = ?flat"
    using len by (simp add: rows concat_iter_rows)
  then have "\<lparr>shape = [?n, ?n], flat = concat ?rows\<rparr> = data m"
    using square by simp
  then have "from_file to_float delimiter (file_lines (to_file to_str delimiter m))
      = init (data m) ?ids"
    by (simp add: from_file_def header read)
  then show ?thesis
    using dm_invariant_rebuild [OF inv] dm_eq_self [OF inv wf] by simp
qed

lemma example_written:
  "to_file literal_to_str tab example_matrix = example_file"
  by (simp add: to_file_def format_sample_ids_def example_matrix_def iter_rows_def write_row_def
      literal_to_str_def example_file_def tab_def newline_def upt_rec)

lemma spaced_matrix_invariant: "dm_invariant spaced_matrix"
  by (simp add: dm_invariant_def spaced_matrix_def validate_def is_valid_dm_def
      eq_transpose_all_def diagonal_zero_def item2_def feq_def upt_rec)

theorem to_file_from_file_round_trip_witness:
  "from_file literal_to_float tab (file_lines (to_file literal_to_str tab example_matrix))
     = Inr example_matrix
   \<and> dm_eq example_matrix (as_object example_matrix) = Inr True
   \<and> from_file literal_to_float tab (file_lines (to_file literal_to_str tab spaced_matrix))
       = Inr spaced_matrix
   \<and> dm_eq spaced_matrix (as_object spaced_matrix) = Inr True"
proof -
  have d: "tab \<noteq> []" "list_all isspace tab" "CHR 0x0A \<notin> set tab"
    by (simp_all add: tab_def isspace_def)
  have f: "list_all (float_text_ok literal_to_str literal_to_float)
      [Finite 0, Finite 1, Finite 1, Finite 0]"
    by (simp add: float_text_ok_def literal_to_str_def literal_to_float_def
        plain_field_def isspace_def)
  have 1: "from_file literal_to_float tab (file_lines (to_file literal_to_str tab example_matrix))
       = Inr example_matrix
     \<and> dm_eq example_matrix (as_object example_matrix) = Inr True"
  proof (rule to_file_from_file_round_trip [OF example_matrix_invariant _ _ d])
    show "shape (data example_matrix)
        = [length (sample_ids example_matrix), length (sample_ids example_matrix)]"
      by (simp add: example_matrix_def)
    show "wf_ndarray (data example_matrix)"
      by (simp add: wf_ndarray_def example_matrix_def)
    show "list_all (plain_id tab) (sample_ids example_matrix)"
      by (simp add: example_matrix_def plain_id_def isspace_def tab_def)
    show "\<not> startswith (hd (sample_ids example_matrix)) ''#''"
      by (simp add: example_matrix_def startswith_def)
    show "list_all (float_text_ok literal_to_str literal_to_float) (flat (data example_matrix))"
      using f by (simp add: example_matrix_def)
  qed
  have 2: "from_file literal_to_float tab (file_lines (to_file literal_to_str tab spaced_matrix))
       = Inr spaced_matrix
     \<and> dm_eq spaced_matrix (as_object spaced_matrix) = Inr True"
  proof (rule to_file_from_file_round_trip [OF spaced_matrix_invariant _ _ d])
    show "shape (data spaced_matrix)
        = [length (sample_ids spaced_matrix), length (sample_ids spaced_matrix)]"
      by (simp add: spaced_matrix_def)
    show "wf_ndarray (data spaced_matrix)"
      by (simp add: wf_ndarray_def spaced_matrix_def)
    show "list_all (plain_id tab) (sample_ids spaced_matrix)"
      by (simp add: spaced_matrix_def plain_id_def isspace_def tab_def)
    show "\<not> startswith (hd (sample_ids spaced_matrix)) ''#''"
      by (simp add: spaced_matrix_def startswith_def)
    show "list_all (float_text_ok literal_to_str literal_to_float) (flat (data spaced_matrix))"
      using f by (simp add: spaced_matrix_def)
  qed
  from 1 2 show ?thesis
    by (simp only: simp_thms)
qed

lemma padded_written:
  "file_lines (to_file literal_to_str tab padded_matrix)
     = [tab @ '' a'' @ newline, '' a'' @ tab @ ''0.0'' @ newline]"
  by (simp add: to_file_def format_sample_ids_def padded_matrix_def iter_rows_def write_row_def
      literal_to_str_def file_lines_def tab_def newline_def upt_rec)

lemma one_by_one_valid: "is_valid_dm \<lparr>shape = [1, 1], flat = [Finite 0]\<rparr>"
  by (simp add: is_valid_dm_def eq_transpose_all_def diagonal_zero_def item2_def feq_def)

text \<open>
  The round trip is not the identity on every instance: the reader strips each line,
  so the 1x1 matrix with the ID \<^verbatim>\<open>" a"\<close>, written with the default tab and read back,
  has the ID \<^verbatim>\<open>"a"\<close> and is not equal to the matrix written.
\<close>

theorem to_file_from_file_padded_id:
  "init \<lparr>shape = [1, 1], flat = [Finite 0]\<rparr> ['' a''] = Inr padded_matrix
   \<and> from_file literal_to_float tab (file_lines (to_file literal_to_str tab padded_matrix))
       = Inr \<lparr>data = \<lparr>shape = [1, 1], flat = [Finite 0]\<rparr>, sample_ids = [''a''],
              sample_index = index_list [''a'']\<rparr>
   \<and> dm_eq padded_matrix
         (as_object \<lparr>data = \<lparr>shape = [1, 1], flat = [Finite 0]\<rparr>, sample_ids = [''a''],
              sample_index = index_list [''a'']\<rparr>) = Inr False"
proof (intro conjI)
  show "init \<lparr>shape = [1, 1], flat = [Finite 0]\<rparr> ['' a''] = Inr padded_matrix"
    using one_by_one_valid by (simp add: init_cases padded_matrix_def)
  have header: "parse_sample_ids tab [tab @ '' a'' @ newline, '' a'' @ tab @ ''0.0'' @ newline]
      = Inr ([''a''], ['' a'' @ tab @ ''0.0'' @ newline])"
    by (simp add: tab_def newline_def strip_def isspace_def startswith_def py_split_def)
  have rows: "read_rows literal_to_float tab [''a''] [] 0 ['' a'' @ tab @ ''0.0'' @ newline]
      = Inr ([[Finite 0]], 1)"
    by (simp add: tab_def newline_def strip_def isspace_def py_split_def literal_to_float_def)
  show "from_file literal_to_float tab (file_lines (to_file literal_to_str tab padded_matrix))
       = Inr \<lparr>data = \<lparr>shape = [1, 1], flat = [Finite 0]\<rparr>, sample_ids = [''a''],
              sample_index = index_list [''a'']\<rparr>"
    unfolding padded_written from_file_def header sum.case prod.case Let_def rows
    using one_by_one_valid by (simp add: init_cases)
  show "dm_eq padded_matrix
         (as_object \<lparr>data = \<lparr>shape = [1, 1], flat = [Finite 0]\<rparr>, sample_ids = [''a''],
              sample_index = index_list [''a'']\<rparr>) = Inr False"
    by (simp add: dm_eq_def as_object_def padded_matrix_def ne_test_def)
qed

text \<open>
  With a delimiter that stripping does not remove, the comma for one, the header
  written by \<^verbatim>\<open>to_file\<close> keeps its empty first field when read: \<^verbatim>\<open>from_file\<close> counts
  one ID more than there are, and the first data row fails the field count.
\<close>

lemma to_file_from_file_comma:
  "from_file literal_to_float '','' (file_lines (to_file literal_to_str '','' example_matrix))
     = Inl (DistanceMatrixFormatError (msg_row_length 1))"
proof -
  have w: "file_lines (to_file literal_to_str '','' example_matrix)
      = ['',a,b'' @ newline, ''a,0.0,1.0'' @ newline, ''b,1.0,0.0'' @ newline]"
    by (simp add: to_file_def format_sample_ids_def example_matrix_def iter_rows_def write_row_def
        literal_to_str_def file_lines_def newline_def upt_rec)
  have header: "parse_sample_ids '','' ['',a,b'' @ newline, ''a,0.0,1.0'' @ newline, ''b,1.0,0.0'' @ newline]
      = Inr ([[], ''a'', ''b''], [''a,0.0,1.0'' @ newline, ''b,1.0,0.0'' @ newline])"
    by (simp add: newline_def strip_def isspace_def startswith_def py_split_def)
  have rows: "read_rows literal_to_float '','' [[], ''a'', ''b''] [] 0
        [''a,0.0,1.0'' @ newline, ''b,1.0,0.0'' @ newline]
      = Inl (DistanceMatrixFormatError (msg_row_length 1))"
    by (simp add: newline_def strip_def isspace_def py_split_def)
  show ?thesis
    unfolding w from_file_def header sum.case prod.case Let_def rows by simp
qed

end
